theory Spec2Isabelle
  imports Complex_Main
begin

section \<open>Data model (src/src/types.ts)\<close>

text \<open>
  The type of a JavaScript \<^verbatim>\<open>number\<close> is the parameter \<open>'n\<close> of the records.
  \<open>validateJournalEntry_with\<close> below is the validator over any such type, with the
  arithmetic of the runtime (IEEE doubles, with NaN and the infinities) as a parameter;
  \<open>validateJournalEntry\<close> is the validator over \<^typ>\<open>real\<close> with exact sums, products
  and comparisons, for the properties that do not depend on how the runtime rounds.
  An optional property (\<^verbatim>\<open>field?: T\<close>) is an
  \<^typ>\<open>'a option\<close>. The properties that the validator guards with \<^verbatim>\<open>!x\<close>
  (\<^verbatim>\<open>posting_date\<close>, \<^verbatim>\<open>company\<close>, \<^verbatim>\<open>accounts\<close>, \<^verbatim>\<open>account\<close>) are options
  as well: the tool handlers cast the request's JSON to \<^verbatim>\<open>JournalEntry\<close> without
  checking it, and the guards exist for the case that a property is absent.
\<close>

record 'n JournalEntryAccount =
  account :: "string option"
  debit_in_account_currency :: "'n option"
  credit_in_account_currency :: "'n option"
  user_remark :: "string option"
  reference_type :: "string option"
  reference_name :: "string option"

text \<open>
  The entry's own \<^verbatim>\<open>user_remark\<close> is the field \<open>entry_remark\<close> (the name is taken
  by the line's field); the constant \<^verbatim>\<open>doctype: 'Journal Entry'\<close> is left out.
\<close>

record 'n JournalEntry =
  voucher_type :: "string option"
  posting_date :: "string option"
  company :: "string option"
  accounts :: "'n JournalEntryAccount list option"
  entry_remark :: "string option"
  cheque_no :: "string option"
  cheque_date :: "string option"

record 'n JournalEntryValidation =
  is_valid :: bool
  total_debit :: 'n
  total_credit :: 'n
  difference :: 'n
  errors :: "string list"
  warnings :: "string list"

section \<open>JavaScript primitives used by the client\<close>

text \<open>\<^verbatim>\<open>!s\<close> for a string that may be absent: true for undefined and for the empty string.\<close>

definition falsy_string :: "string option \<Rightarrow> bool" where
  "falsy_string s = (case s of None \<Rightarrow> True | Some t \<Rightarrow> t = [])"

text \<open>\<^verbatim>\<open>x || 0\<close> for a number that may be absent.\<close>

definition number_or_zero :: "real option \<Rightarrow> real" where
  "number_or_zero x = (case x of None \<Rightarrow> 0 | Some v \<Rightarrow> if v = 0 then 0 else v)"

text \<open>\<^verbatim>\<open>Math.round\<close>: the nearest integer, a tie going up.\<close>

definition Math_round :: "real \<Rightarrow> real" where
  "Math_round x = of_int \<lfloor>x + 1 / 2\<rfloor>"

text \<open>A string that may be absent, inside a template literal.\<close>

definition template_string :: "string option \<Rightarrow> string" where
  "template_string s = (case s of None \<Rightarrow> ''undefined'' | Some t \<Rightarrow> t)"

text \<open>\<^verbatim>\<open>a.join(sep)\<close>.\<close>

fun join :: "string \<Rightarrow> string list \<Rightarrow> string" where
  "join sep [] = []"
| "join sep [x] = x"
| "join sep (x # y # ys) = x @ sep @ join sep (y # ys)"

text \<open>
  The text of a number inside a template literal (\<^verbatim>\<open>Number.prototype.toString\<close>) is a
  parameter \<open>fmt\<close> of every function that prints one. \<open>cents_to_string\<close> is that text
  for the numbers the validator prints, a whole number of cents below \<open>10\<^sup>2\<^sup>1\<close>:
  the sign, the integer part, and the fraction without trailing zeros.
\<close>

definition digit_char :: "nat \<Rightarrow> char" where
  "digit_char d = ''0123456789'' ! d"

fun digits :: "nat \<Rightarrow> string" where
  "digits n = (if n < 10 then [digit_char n] else digits (n div 10) @ [digit_char (n mod 10)])"

definition cents_to_string :: "real \<Rightarrow> string" where
  "cents_to_string x =
     (let k = \<lfloor>x * 100\<rfloor>; n = nat \<bar>k\<bar>; f = n mod 100 in
      (if k < 0 then ''-'' else []) @ digits (n div 100) @
      (if f = 0 then []
       else if f mod 10 = 0 then ''.'' @ [digit_char (f div 10)]
       else ''.'' @ [digit_char (f div 10), digit_char (f mod 10)]))"

section \<open>validateJournalEntry (src/src/index.ts)\<close>

text \<open>
  The method over the reals with exact arithmetic; the next section has it with the
  arithmetic as a parameter, and \<open>validateJournalEntry_exact\<close> below shows that this one
  is that one at exact arithmetic.
  The method builds the object \<open>validation\<close> and updates it statement by statement;
  each \<open>let\<close> below is one statement, in the source's order. \<open>add_error\<close> is the pair
  \<^verbatim>\<open>validation.errors.push(msg); validation.is_valid = false\<close>, which the source
  always writes together.
\<close>

definition add_error :: "string \<Rightarrow> 'n JournalEntryValidation \<Rightarrow> 'n JournalEntryValidation" where
  "add_error msg v = v\<lparr>errors := errors v @ [msg], is_valid := False\<rparr>"

definition add_warning :: "string \<Rightarrow> 'n JournalEntryValidation \<Rightarrow> 'n JournalEntryValidation" where
  "add_warning msg v = v\<lparr>warnings := warnings v @ [msg]\<rparr>"

definition both_sides_warning :: "string \<Rightarrow> string" where
  "both_sides_warning a = ''Account '' @ a @ '' has both debit and credit - this is unusual''"

definition neither_side_error :: "string \<Rightarrow> string" where
  "neither_side_error a = ''Account '' @ a @ '' has neither debit nor credit''"

definition unbalanced_error :: "('n \<Rightarrow> string) \<Rightarrow> 'n \<Rightarrow> 'n \<Rightarrow> 'n \<Rightarrow> string" where
  "unbalanced_error fmt td tc d =
     ''Debits ('' @ fmt td @ '') do not equal credits ('' @ fmt tc @ ''). Difference: '' @ fmt d"

text \<open>The body of the loop over \<^verbatim>\<open>journalEntry.accounts\<close>.\<close>

definition check_account :: "real JournalEntryAccount \<Rightarrow> real JournalEntryValidation \<Rightarrow> real JournalEntryValidation" where
  "check_account a v =
     (if falsy_string (account a) then add_error ''Account name is required for all entries'' v
      else
        let debit = number_or_zero (debit_in_account_currency a);
            credit = number_or_zero (credit_in_account_currency a);
            v1 = v\<lparr>total_debit := total_debit v + debit\<rparr>;
            v2 = v1\<lparr>total_credit := total_credit v1 + credit\<rparr>;
            v3 = (if debit > 0 \<and> credit > 0 then add_warning (both_sides_warning (template_string (account a))) v2 else v2)
        in (if debit = 0 \<and> credit = 0 then add_error (neither_side_error (template_string (account a))) v3 else v3))"

fun check_accounts :: "real JournalEntryAccount list \<Rightarrow> real JournalEntryValidation \<Rightarrow> real JournalEntryValidation" where
  "check_accounts [] v = v"
| "check_accounts (a # as) v = check_accounts as (check_account a v)"

definition validateJournalEntry :: "(real \<Rightarrow> string) \<Rightarrow> real JournalEntry \<Rightarrow> real JournalEntryValidation" where
  "validateJournalEntry fmt journalEntry =
     (let v0 = \<lparr>is_valid = True, total_debit = 0, total_credit = 0, difference = 0,
                errors = [], warnings = []\<rparr>;
          v1 = (if falsy_string (posting_date journalEntry) then add_error ''posting_date is required'' v0 else v0);
          v2 = (if falsy_string (company journalEntry) then add_error ''company is required'' v1 else v1)
      in case accounts journalEntry of
           None \<Rightarrow> add_error ''At least one account entry is required'' v2
         | Some lines \<Rightarrow>
             if length lines = 0 then add_error ''At least one account entry is required'' v2
             else
               let v3 = (if length lines < 2
                         then add_error ''Journal entry must have at least 2 account entries'' v2 else v2);
                   v4 = check_accounts lines v3;
                   v5 = v4\<lparr>total_debit := Math_round (total_debit v4 * 100) / 100\<rparr>;
                   v6 = v5\<lparr>total_credit := Math_round (total_credit v5 * 100) / 100\<rparr>;
                   v7 = v6\<lparr>difference := Math_round ((total_debit v6 - total_credit v6) * 100) / 100\<rparr>
               in (if \<bar>difference v7\<bar> > 1 / 100
                   then add_error (unbalanced_error fmt (total_debit v7) (total_credit v7) (difference v7)) v7
                   else v7))"

section \<open>validateJournalEntry in the arithmetic of the runtime\<close>

text \<open>
  The operations on numbers that the validator uses, as the runtime computes them:
  the literals \<^verbatim>\<open>0\<close>, \<^verbatim>\<open>100\<close> and \<^verbatim>\<open>0.01\<close>, the truth value of a number (false
  for zero and NaN), \<^verbatim>\<open>+\<close>, \<^verbatim>\<open>-\<close>, \<^verbatim>\<open>*\<close>, \<^verbatim>\<open>/\<close>, \<^verbatim>\<open>>\<close>, \<^verbatim>\<open>===\<close>,
  \<^verbatim>\<open>Math.round\<close>, \<^verbatim>\<open>Math.abs\<close> and the text of a number in a template literal.
  Nothing is assumed of them, so what is proved of \<open>validateJournalEntry_with\<close> holds
  in IEEE double arithmetic, overflow and NaN included.
\<close>

record 'n arithmetic =
  js_zero :: 'n
  js_hundred :: 'n
  js_cent :: 'n
  js_truthy :: "'n \<Rightarrow> bool"
  js_add :: "'n \<Rightarrow> 'n \<Rightarrow> 'n"
  js_sub :: "'n \<Rightarrow> 'n \<Rightarrow> 'n"
  js_mul :: "'n \<Rightarrow> 'n \<Rightarrow> 'n"
  js_div :: "'n \<Rightarrow> 'n \<Rightarrow> 'n"
  js_gt :: "'n \<Rightarrow> 'n \<Rightarrow> bool"
  js_eq :: "'n \<Rightarrow> 'n \<Rightarrow> bool"
  js_round :: "'n \<Rightarrow> 'n"
  js_abs :: "'n \<Rightarrow> 'n"
  js_string :: "'n \<Rightarrow> string"

text \<open>\<^verbatim>\<open>x || 0\<close> for a number that may be absent.\<close>

definition number_or :: "'n arithmetic \<Rightarrow> 'n option \<Rightarrow> 'n" where
  "number_or ar x = (case x of None \<Rightarrow> js_zero ar | Some v \<Rightarrow> if js_truthy ar v then v else js_zero ar)"

text \<open>The body of the loop, the loop and the method, statement by statement as above.\<close>

definition check_account_with ::
  "'n arithmetic \<Rightarrow> 'n JournalEntryAccount \<Rightarrow> 'n JournalEntryValidation \<Rightarrow> 'n JournalEntryValidation" where
  "check_account_with ar a v =
     (if falsy_string (account a) then add_error ''Account name is required for all entries'' v
      else
        let debit = number_or ar (debit_in_account_currency a);
            credit = number_or ar (credit_in_account_currency a);
            v1 = v\<lparr>total_debit := js_add ar (total_debit v) debit\<rparr>;
            v2 = v1\<lparr>total_credit := js_add ar (total_credit v1) credit\<rparr>;
            v3 = (if js_gt ar debit (js_zero ar) \<and> js_gt ar credit (js_zero ar)
                  then add_warning (both_sides_warning (template_string (account a))) v2 else v2)
        in (if js_eq ar debit (js_zero ar) \<and> js_eq ar credit (js_zero ar)
            then add_error (neither_side_error (template_string (account a))) v3 else v3))"

fun check_accounts_with ::
  "'n arithmetic \<Rightarrow> 'n JournalEntryAccount list \<Rightarrow> 'n JournalEntryValidation \<Rightarrow> 'n JournalEntryValidation" where
  "check_accounts_with ar [] v = v"
| "check_accounts_with ar (a # as) v = check_accounts_with ar as (check_account_with ar a v)"

definition validateJournalEntry_with :: "'n arithmetic \<Rightarrow> 'n JournalEntry \<Rightarrow> 'n JournalEntryValidation" where
  "validateJournalEntry_with ar journalEntry =
     (let v0 = \<lparr>is_valid = True, total_debit = js_zero ar, total_credit = js_zero ar,
                difference = js_zero ar, errors = [], warnings = []\<rparr>;
          v1 = (if falsy_string (posting_date journalEntry) then add_error ''posting_date is required'' v0 else v0);
          v2 = (if falsy_string (company journalEntry) then add_error ''company is required'' v1 else v1)
      in case accounts journalEntry of
           None \<Rightarrow> add_error ''At least one account entry is required'' v2
         | Some lines \<Rightarrow>
             if length lines = 0 then add_error ''At least one account entry is required'' v2
             else
               let v3 = (if length lines < 2
                         then add_error ''Journal entry must have at least 2 account entries'' v2 else v2);
                   v4 = check_accounts_with ar lines v3;
                   v5 = v4\<lparr>total_debit :=
                          js_div ar (js_round ar (js_mul ar (total_debit v4) (js_hundred ar))) (js_hundred ar)\<rparr>;
                   v6 = v5\<lparr>total_credit :=
                          js_div ar (js_round ar (js_mul ar (total_credit v5) (js_hundred ar))) (js_hundred ar)\<rparr>;
                   v7 = v6\<lparr>difference :=
                          js_div ar (js_round ar (js_mul ar (js_sub ar (total_debit v6) (total_credit v6))
                            (js_hundred ar))) (js_hundred ar)\<rparr>
               in (if js_gt ar (js_abs ar (difference v7)) (js_cent ar)
                   then add_error (unbalanced_error (js_string ar) (total_debit v7) (total_credit v7)
                          (difference v7)) v7
                   else v7))"

text \<open>
  Exact arithmetic on the reals, the arithmetic of \<open>validateJournalEntry\<close>; it agrees
  with the runtime where the doubles compute without rounding error.
\<close>

definition exact_arithmetic :: "(real \<Rightarrow> string) \<Rightarrow> real arithmetic" where
  "exact_arithmetic fmt =
     \<lparr>js_zero = 0, js_hundred = 100, js_cent = 1 / 100, js_truthy = (\<lambda>x. x \<noteq> 0),
      js_add = (\<lambda>x y. x + y), js_sub = (\<lambda>x y. x - y), js_mul = (\<lambda>x y. x * y),
      js_div = (\<lambda>x y. x / y), js_gt = (\<lambda>x y. x > y), js_eq = (\<lambda>x y. x = y),
      js_round = Math_round, js_abs = (\<lambda>x. \<bar>x\<bar>), js_string = fmt\<rparr>"

section \<open>The ERPNext API behind the client\<close>

text \<open>
  The remote system is a parameter. A request that the client sends through axios is a
  value of \<open>gateway_request\<close>; the \<open>world\<close> is the list of requests sent so far, oldest
  first. The remote answers a request, given the requests before it, with the document
  in \<^verbatim>\<open>response.data\<close> or makes axios throw; \<open>Inl m\<close> is a thrown error with
  \<^verbatim>\<open>error.message = m\<close> (\<open>None\<close> when it has no message).
  \<^verbatim>\<open>JSON.stringify({doctype, name})\<close> in the body of \<^verbatim>\<open>frappe.client.submit\<close> is kept
  as the pair of its two strings.
\<close>

record RemoteDoc =
  name :: string
  json :: string

datatype gateway_request =
    Post_resource string "real JournalEntry"
  | Post_method string string string

type_synonym world = "gateway_request list"

type_synonym gateway = "world \<Rightarrow> gateway_request \<Rightarrow> string option + RemoteDoc"

text \<open>\<^verbatim>\<open>error?.message || 'Unknown error'\<close>.\<close>

definition error_message :: "string option \<Rightarrow> string" where
  "error_message m = (if falsy_string m then ''Unknown error'' else template_string m)"

text \<open>
  A client method returns its value (\<open>Inr\<close>) or the message of the \<^verbatim>\<open>Error\<close> it throws
  (\<open>Inl\<close>), and the world after it.
\<close>

definition createDocument :: "gateway \<Rightarrow> string \<Rightarrow> real JournalEntry \<Rightarrow> world \<Rightarrow> (string + RemoteDoc) \<times> world" where
  "createDocument gw doctype doc w =
     (case gw w (Post_resource doctype doc) of
        Inr response \<Rightarrow> (Inr response, w @ [Post_resource doctype doc])
      | Inl error \<Rightarrow>
          (Inl (''Failed to create '' @ doctype @ '': '' @ error_message error),
           w @ [Post_resource doctype doc]))"

definition callMethod :: "gateway \<Rightarrow> string \<Rightarrow> string \<Rightarrow> string \<Rightarrow> world \<Rightarrow> (string + RemoteDoc) \<times> world" where
  "callMethod gw methodPath doctype docname w =
     (case gw w (Post_method methodPath doctype docname) of
        Inr response \<Rightarrow> (Inr response, w @ [Post_method methodPath doctype docname])
      | Inl error \<Rightarrow>
          (Inl (''Failed to call method '' @ methodPath @ '': '' @ error_message error),
           w @ [Post_method methodPath doctype docname]))"

section \<open>createJournalEntry and submitJournalEntry (src/src/index.ts)\<close>

definition createJournalEntry ::
  "gateway \<Rightarrow> (real \<Rightarrow> string) \<Rightarrow> real JournalEntry \<Rightarrow> bool \<Rightarrow> world \<Rightarrow> (string + RemoteDoc) \<times> world" where
  "createJournalEntry gw fmt journalEntry skipValidation w =
     (let attempt =
            (if \<not> skipValidation then
               let validation = validateJournalEntry fmt journalEntry in
               if \<not> is_valid validation
               then (Inl (''Journal entry validation failed: '' @ join '', '' (errors validation)), w)
               else createDocument gw ''Journal Entry'' journalEntry w
             else createDocument gw ''Journal Entry'' journalEntry w)
      in case attempt of
           (Inr result, w') \<Rightarrow> (Inr result, w')
         | (Inl error, w') \<Rightarrow>
             (Inl (''Failed to create journal entry: '' @ error_message (Some error)), w'))"

definition submitJournalEntry :: "gateway \<Rightarrow> string \<Rightarrow> world \<Rightarrow> (string + RemoteDoc) \<times> world" where
  "submitJournalEntry gw journalEntryName w =
     (case callMethod gw ''frappe.client.submit'' ''Journal Entry'' journalEntryName w of
        (Inr result, w') \<Rightarrow> (Inr result, w')
      | (Inl error, w') \<Rightarrow>
          (Inl (''Failed to submit journal entry '' @ journalEntryName @ '': '' @
                error_message (Some error)), w'))"

section \<open>The tool create_journal_entry (src/src/index.ts)\<close>

text \<open>
  The handler returns a tool result, or throws an \<^verbatim>\<open>McpError\<close> when the argument
  \<^verbatim>\<open>journal_entry\<close> is missing. An absent \<^verbatim>\<open>isError\<close> is \<open>False\<close>. The arguments
  \<^verbatim>\<open>skip_validation\<close> and \<^verbatim>\<open>submit\<close> are optional booleans read with \<^verbatim>\<open>|| false\<close>.
  \<open>json result\<close> stands for \<^verbatim>\<open>JSON.stringify(result, null, 2)\<close>.
\<close>

record ToolResult =
  text_content :: string
  isError :: bool

datatype McpError = InvalidParams string

definition flag :: "bool option \<Rightarrow> bool" where
  "flag b = (case b of None \<Rightarrow> False | Some v \<Rightarrow> v)"

definition newline :: string where
  "newline = [CHR 0x0A]"

definition create_journal_entry ::
  "gateway \<Rightarrow> (real \<Rightarrow> string) \<Rightarrow> bool \<Rightarrow> real JournalEntry option \<Rightarrow> bool option \<Rightarrow> bool option \<Rightarrow> world
     \<Rightarrow> (McpError + ToolResult) \<times> world" where
  "create_journal_entry gw fmt authenticated journal_entry skip_validation submit w =
     (if \<not> authenticated
      then (Inr \<lparr>text_content = ''Not authenticated with ERPNext. Please configure API key authentication.'',
                 isError = True\<rparr>, w)
      else case journal_entry of
        None \<Rightarrow> (Inl (InvalidParams ''journal_entry is required''), w)
      | Some journalEntry \<Rightarrow>
          (case createJournalEntry gw fmt journalEntry (flag skip_validation) w of
             (Inl error, w1) \<Rightarrow>
               (Inr \<lparr>text_content = ''Failed to create journal entry: '' @ error_message (Some error),
                     isError = True\<rparr>, w1)
           | (Inr result, w1) \<Rightarrow>
               let message = ''Journal Entry created successfully: '' @ name result @ newline @ newline in
               if flag submit then
                 (case submitJournalEntry gw (name result) w1 of
                    (Inl error, w2) \<Rightarrow>
                      (Inr \<lparr>text_content = ''Failed to create journal entry: '' @ error_message (Some error),
                            isError = True\<rparr>, w2)
                  | (Inr submitted, w2) \<Rightarrow>
                      (Inr \<lparr>text_content =
                              message @ ''Journal Entry submitted (posted) successfully.'' @ newline @ newline @
                              json result,
                            isError = False\<rparr>, w2))
               else (Inr \<lparr>text_content = message @ json result, isError = False\<rparr>, w1)))"

section \<open>searchBankTransactions (src/src/index.ts)\<close>

text \<open>
  The fields of \<^verbatim>\<open>BankTransaction\<close> that the search requests from the API. The fields
  \<^verbatim>\<open>name\<close> and \<^verbatim>\<open>company\<close> are \<open>transaction_name\<close> and \<open>transaction_company\<close> here
  (both names are taken by other records).
\<close>

record BankTransaction =
  transaction_name :: "string option"
  date :: string
  deposit :: "real option"
  withdrawal :: "real option"
  description :: string
  reference_number :: "string option"
  transaction_id :: "string option"
  bank_account :: string
  transaction_company :: "string option"
  currency :: "string option"
  status :: "string option"

text \<open>
  The object \<open>filters\<close>: one optional entry per key. The value under \<^verbatim>\<open>date\<close> is
  \<^verbatim>\<open>['>=', fromDate]\<close>, \<^verbatim>\<open>['<=', toDate]\<close> or \<^verbatim>\<open>['between', [fromDate, toDate]]\<close>.
\<close>

datatype date_filter = From_date string | To_date string | Between string string

record filters =
  filter_bank_account :: "string option"
  filter_company :: "string option"
  filter_status :: "string option"
  filter_date :: "date_filter option"

text \<open>
  \<open>list_api doctype filters field_names limit\<close> is the answer of the remote system to
  \<^verbatim>\<open>getDocList\<close>: the records in \<^verbatim>\<open>response.data.data\<close>, or a thrown error.
\<close>

type_synonym list_api = "string \<Rightarrow> filters \<Rightarrow> string list \<Rightarrow> nat \<Rightarrow> string option + BankTransaction list"

definition getDocList :: "list_api \<Rightarrow> string \<Rightarrow> filters \<Rightarrow> string list \<Rightarrow> nat \<Rightarrow> string + BankTransaction list" where
  "getDocList api doctype fs field_names limit =
     (case api doctype fs field_names limit of
        Inr records \<Rightarrow> Inr records
      | Inl error \<Rightarrow> Inl (''Failed to get '' @ doctype @ '' list: '' @ error_message error))"

text \<open>\<^verbatim>\<open>a || b\<close> on numbers that may be absent: \<open>a\<close> unless it is undefined or zero.\<close>

definition or_number :: "real option \<Rightarrow> real option \<Rightarrow> real option" where
  "or_number a b = (case a of None \<Rightarrow> b | Some v \<Rightarrow> if v = 0 then b else a)"

text \<open>\<^verbatim>\<open>const amount = t.deposit || t.withdrawal || 0\<close>.\<close>

definition amount :: "BankTransaction \<Rightarrow> real" where
  "amount t = number_or_zero (or_number (deposit t) (withdrawal t))"

text \<open>The callback of \<^verbatim>\<open>filtered.filter\<close>.\<close>

definition amount_filter :: "real option \<Rightarrow> real option \<Rightarrow> BankTransaction \<Rightarrow> bool" where
  "amount_filter minAmount maxAmount t =
     (if (case minAmount of None \<Rightarrow> False | Some m \<Rightarrow> amount t < m) then False
      else if (case maxAmount of None \<Rightarrow> False | Some m \<Rightarrow> amount t > m) then False
      else True)"

definition build_filters :: "string option \<Rightarrow> string option \<Rightarrow> string option \<Rightarrow> string option \<Rightarrow> string option \<Rightarrow> filters" where
  "build_filters bankAccount company_name status_name fromDate toDate =
     (let f0 = \<lparr>filter_bank_account = None, filter_company = None, filter_status = None, filter_date = None\<rparr>;
          f1 = (if \<not> falsy_string bankAccount then f0\<lparr>filter_bank_account := bankAccount\<rparr> else f0);
          f2 = (if \<not> falsy_string company_name then f1\<lparr>filter_company := company_name\<rparr> else f1);
          f3 = (if \<not> falsy_string status_name then f2\<lparr>filter_status := status_name\<rparr> else f2);
          f4 = (if \<not> falsy_string fromDate then f3\<lparr>filter_date := Some (From_date (template_string fromDate))\<rparr> else f3)
      in if \<not> falsy_string toDate then
           (if filter_date f4 \<noteq> None
            then f4\<lparr>filter_date := Some (Between (template_string fromDate) (template_string toDate))\<rparr>
            else f4\<lparr>filter_date := Some (To_date (template_string toDate))\<rparr>)
         else f4)"

definition searchBankTransactions ::
  "list_api \<Rightarrow> string option \<Rightarrow> string option \<Rightarrow> string option \<Rightarrow> string option \<Rightarrow> string option \<Rightarrow>
     real option \<Rightarrow> real option \<Rightarrow> string + BankTransaction list" where
  "searchBankTransactions api bankAccount company_name status_name fromDate toDate minAmount maxAmount =
     (case getDocList api ''Bank Transaction''
             (build_filters bankAccount company_name status_name fromDate toDate)
             [''name'', ''date'', ''deposit'', ''withdrawal'', ''description'', ''reference_number'',
              ''transaction_id'', ''bank_account'', ''company'', ''currency'', ''status'']
             0 of
        Inl error \<Rightarrow> Inl (''Failed to search bank transactions: '' @ error_message (Some error))
      | Inr transactions \<Rightarrow>
          if minAmount \<noteq> None \<or> maxAmount \<noteq> None
          then Inr (filter (amount_filter minAmount maxAmount) transactions)
          else Inr transactions)"

section \<open>Batch creation of journal entries\<close>

text \<open>
  Modelled from the spec: the outcome of one entry of a batch (spec section 3,
  BatchItemOutcome). No file under src/src defines batchCreateJournalEntries or its
  result types; src/docs/bank-import-tools.md only describes the tool.
\<close>

datatype BatchItemOutcome =
    Created string bool
  | ValidationFailed "string list"
  | GatewayFailed string
  | NotAttempted

text \<open>
  Modelled from the spec: the result of a batch (spec section 3, BatchResult), missing
  from src/ like the function that returns it.
\<close>

record BatchResult =
  successCount :: nat
  errorCount :: nat
  outcomes :: "BatchItemOutcome list"

text \<open>
  Modelled from the spec: what a batch has done so far, kept so that "validated" and
  "sent" can be observed; \<open>validated\<close> lists the drafts given to the validator and
  \<open>sent\<close> the requests given to the Gateway, both oldest first.
\<close>

record batch_trace =
  validated :: "real JournalEntry list"
  sent :: world

text \<open>
  Modelled from the spec: the outcomes that count as errors and stop a batch
  (spec section 4.2, aggregation and early-stop policy).
\<close>

fun is_failure :: "BatchItemOutcome \<Rightarrow> bool" where
  "is_failure (ValidationFailed es) = True"
| "is_failure (GatewayFailed m) = True"
| "is_failure out = False"

text \<open>
  Modelled from the spec: the outcomes that count as successes (spec section 4.2:
  Created, whatever the submission did).
\<close>

fun is_created :: "BatchItemOutcome \<Rightarrow> bool" where
  "is_created (Created n submitted) = True"
| "is_created out = False"

text \<open>
  Modelled from the spec: the state machine of one entry (spec section 4.2), missing
  from src/. The entry is validated; an invalid one is ValidationFailed with the
  validator's errors; a valid one is created through the Gateway (GatewayFailed with
  the message, or Created); a created one is submitted when autoSubmit is set, and
  \<open>Created id True\<close> says that the submission succeeded; after a failed submission
  the outcome is \<open>Created id False\<close>, the outcome of section 3 having no place for the
  recorded submission error. The validator and the two
  Gateway calls are the client's own (\<open>validateJournalEntry\<close>, \<open>createDocument\<close>,
  \<open>submitJournalEntry\<close>).
\<close>

definition process_entry ::
  "gateway \<Rightarrow> (real \<Rightarrow> string) \<Rightarrow> bool \<Rightarrow> real JournalEntry \<Rightarrow> batch_trace \<Rightarrow> BatchItemOutcome \<times> batch_trace" where
  "process_entry gw fmt autoSubmit entry tr =
     (let validation = validateJournalEntry fmt entry;
          tr1 = tr\<lparr>validated := validated tr @ [entry]\<rparr>
      in if \<not> is_valid validation then (ValidationFailed (errors validation), tr1)
         else case createDocument gw ''Journal Entry'' entry (sent tr1) of
                (Inl message, w) \<Rightarrow> (GatewayFailed message, tr1\<lparr>sent := w\<rparr>)
              | (Inr doc, w) \<Rightarrow>
                  if autoSubmit then
                    (case submitJournalEntry gw (name doc) w of
                       (Inl message, w') \<Rightarrow> (Created (name doc) False, tr1\<lparr>sent := w'\<rparr>)
                     | (Inr submitted, w') \<Rightarrow> (Created (name doc) True, tr1\<lparr>sent := w'\<rparr>))
                  else (Created (name doc) False, tr1\<lparr>sent := w\<rparr>))"

text \<open>
  Modelled from the spec: the loop over the entries, in input order (spec section 4.2),
  missing from src/. After a failure under stopOnError every later entry is
  NotAttempted.
\<close>

fun run_entries ::
  "gateway \<Rightarrow> (real \<Rightarrow> string) \<Rightarrow> bool \<Rightarrow> bool \<Rightarrow> real JournalEntry list \<Rightarrow> batch_trace
     \<Rightarrow> BatchItemOutcome list \<times> batch_trace" where
  "run_entries gw fmt autoSubmit stopOnError [] tr = ([], tr)"
| "run_entries gw fmt autoSubmit stopOnError (entry # rest) tr =
     (case process_entry gw fmt autoSubmit entry tr of
        (out, tr1) \<Rightarrow>
          if stopOnError \<and> is_failure out
          then (out # replicate (length rest) NotAttempted, tr1)
          else (case run_entries gw fmt autoSubmit stopOnError rest tr1 of
                  (outs, tr2) \<Rightarrow> (out # outs, tr2)))"

text \<open>
  Modelled from the spec: batchCreateJournalEntries (spec sections 4.2 and 6), missing
  from src/: the outcomes of the loop with the two counts.
\<close>

definition batchCreateJournalEntries ::
  "gateway \<Rightarrow> (real \<Rightarrow> string) \<Rightarrow> real JournalEntry list \<Rightarrow> bool \<Rightarrow> bool \<Rightarrow> batch_trace
     \<Rightarrow> BatchResult \<times> batch_trace" where
  "batchCreateJournalEntries gw fmt entries autoSubmit stopOnError tr =
     (case run_entries gw fmt autoSubmit stopOnError entries tr of
        (outs, tr') \<Rightarrow>
          (\<lparr>successCount = length (filter is_created outs),
            errorCount = length (filter is_failure outs),
            outcomes = outs\<rparr>, tr'))"

section \<open>Vocabulary of the properties\<close>

text \<open>The locals \<open>debit\<close> and \<open>credit\<close> of the loop body, and what one line adds.\<close>

definition line_debit :: "real JournalEntryAccount \<Rightarrow> real" where
  "line_debit a = number_or_zero (debit_in_account_currency a)"

definition line_credit :: "real JournalEntryAccount \<Rightarrow> real" where
  "line_credit a = number_or_zero (credit_in_account_currency a)"

definition line_errors :: "real JournalEntryAccount \<Rightarrow> string list" where
  "line_errors a =
     (if falsy_string (account a) then [''Account name is required for all entries'']
      else if line_debit a = 0 \<and> line_credit a = 0 then [neither_side_error (template_string (account a))]
      else [])"

definition line_warnings :: "real JournalEntryAccount \<Rightarrow> string list" where
  "line_warnings a =
     (if \<not> falsy_string (account a) \<and> line_debit a > 0 \<and> line_credit a > 0
      then [both_sides_warning (template_string (account a))] else [])"

text \<open>The lines of a draft (none when the array is absent) and those that name an account.\<close>

definition lines_of :: "'n JournalEntry \<Rightarrow> 'n JournalEntryAccount list" where
  "lines_of je = (case accounts je of None \<Rightarrow> [] | Some ls \<Rightarrow> ls)"

definition named_lines :: "'n JournalEntryAccount list \<Rightarrow> 'n JournalEntryAccount list" where
  "named_lines ls = filter (\<lambda>a. \<not> falsy_string (account a)) ls"

text \<open>
  The totals as the specification words them: the sums over the lines that name an
  account, rounded to cents, and their difference rounded to cents.
\<close>

definition round_cents :: "real \<Rightarrow> real" where
  "round_cents x = Math_round (x * 100) / 100"

definition spec_total_debit :: "real JournalEntry \<Rightarrow> real" where
  "spec_total_debit je = round_cents (sum_list (map line_debit (named_lines (lines_of je))))"

definition spec_total_credit :: "real JournalEntry \<Rightarrow> real" where
  "spec_total_credit je = round_cents (sum_list (map line_credit (named_lines (lines_of je))))"

definition spec_difference :: "real JournalEntry \<Rightarrow> real" where
  "spec_difference je = round_cents (spec_total_debit je - spec_total_credit je)"

definition header_errors :: "'n JournalEntry \<Rightarrow> string list" where
  "header_errors je =
     (if falsy_string (posting_date je) then [''posting_date is required''] else []) @
     (if falsy_string (company je) then [''company is required''] else [])"

text \<open>
  The same vocabulary in the arithmetic of the runtime: the locals \<open>debit\<close> and
  \<open>credit\<close>, what one line adds, rounding to cents as the method writes it, and the
  totals and the difference that the method computes for a draft: each total is the
  sum, accumulated from 0 in the order of the lines, over the lines that name an
  account.
\<close>

definition line_debit_with :: "'n arithmetic \<Rightarrow> 'n JournalEntryAccount \<Rightarrow> 'n" where
  "line_debit_with ar a = number_or ar (debit_in_account_currency a)"

definition line_credit_with :: "'n arithmetic \<Rightarrow> 'n JournalEntryAccount \<Rightarrow> 'n" where
  "line_credit_with ar a = number_or ar (credit_in_account_currency a)"

definition line_errors_with :: "'n arithmetic \<Rightarrow> 'n JournalEntryAccount \<Rightarrow> string list" where
  "line_errors_with ar a =
     (if falsy_string (account a) then [''Account name is required for all entries'']
      else if js_eq ar (line_debit_with ar a) (js_zero ar) \<and> js_eq ar (line_credit_with ar a) (js_zero ar)
      then [neither_side_error (template_string (account a))]
      else [])"

definition line_warnings_with :: "'n arithmetic \<Rightarrow> 'n JournalEntryAccount \<Rightarrow> string list" where
  "line_warnings_with ar a =
     (if \<not> falsy_string (account a) \<and> js_gt ar (line_debit_with ar a) (js_zero ar) \<and>
         js_gt ar (line_credit_with ar a) (js_zero ar)
      then [both_sides_warning (template_string (account a))] else [])"

definition to_cents :: "'n arithmetic \<Rightarrow> 'n \<Rightarrow> 'n" where
  "to_cents ar x = js_div ar (js_round ar (js_mul ar x (js_hundred ar))) (js_hundred ar)"

definition computed_total_debit :: "'n arithmetic \<Rightarrow> 'n JournalEntry \<Rightarrow> 'n" where
  "computed_total_debit ar je =
     to_cents ar (foldl (js_add ar) (js_zero ar) (map (line_debit_with ar) (named_lines (lines_of je))))"

definition computed_total_credit :: "'n arithmetic \<Rightarrow> 'n JournalEntry \<Rightarrow> 'n" where
  "computed_total_credit ar je =
     to_cents ar (foldl (js_add ar) (js_zero ar) (map (line_credit_with ar) (named_lines (lines_of je))))"

definition computed_difference :: "'n arithmetic \<Rightarrow> 'n JournalEntry \<Rightarrow> 'n" where
  "computed_difference ar je =
     to_cents ar (js_sub ar (computed_total_debit ar je) (computed_total_credit ar je))"

text \<open>
  The amount of a transaction as the specification words it: the deposit if it is
  positive, else the withdrawal (an absent field counting as zero).
\<close>

definition spec_amount :: "BankTransaction \<Rightarrow> real" where
  "spec_amount t =
     (if number_or_zero (deposit t) > 0 then number_or_zero (deposit t) else number_or_zero (withdrawal t))"

text \<open>Drafts, lines and transactions for the examples.\<close>

definition line :: "string \<Rightarrow> real \<Rightarrow> real \<Rightarrow> real JournalEntryAccount" where
  "line a d c =
     \<lparr>account = Some a, debit_in_account_currency = Some d, credit_in_account_currency = Some c,
      user_remark = None, reference_type = None, reference_name = None\<rparr>"

definition draft :: "string \<Rightarrow> string \<Rightarrow> real JournalEntryAccount list \<Rightarrow> real JournalEntry" where
  "draft d c ls =
     \<lparr>voucher_type = None, posting_date = Some d, company = Some c, accounts = Some ls,
      entry_remark = None, cheque_no = None, cheque_date = None\<rparr>"

definition transaction :: "string \<Rightarrow> real option \<Rightarrow> real option \<Rightarrow> BankTransaction" where
  "transaction n d w =
     \<lparr>transaction_name = Some n, date = ''2025-02-15'', deposit = d, withdrawal = w,
      description = n, reference_number = None, transaction_id = None,
      bank_account = ''Primary Checking - Main Bank'', transaction_company = None,
      currency = None, status = Some ''Unreconciled''\<rparr>"

text \<open>
  The three transactions of the bank statement in src/docs/bank-import-tools.md, as the
  answer of the API to any list request.
\<close>

definition statement_api :: list_api where
  "statement_api doctype fs field_names limit =
     Inr [transaction ''Salary Deposit'' (Some 1500) None,
          transaction ''Utility Payment'' None (Some 250),
          transaction ''Grocery Store'' None (Some 45.5)]"

text \<open>A remote system that accepts every request, and one that rejects every method call.\<close>

definition accepting_gateway :: gateway where
  "accepting_gateway w request = Inr \<lparr>name = ''ACC-JV-2025-00001'', json = ''{}''\<rparr>"

definition submit_rejecting_gateway :: gateway where
  "submit_rejecting_gateway w request =
     (case request of
        Post_resource doctype doc \<Rightarrow> Inr \<lparr>name = ''ACC-JV-2025-00001'', json = ''{}''\<rparr>
      | Post_method methodPath doctype docname \<Rightarrow> Inl (Some ''Request failed with status code 417''))"

section \<open>What the validator computes\<close>

declare digits.simps [simp del]

lemma check_account_eq:
  "check_account a v =
     v\<lparr>total_debit := total_debit v + (if falsy_string (account a) then 0 else line_debit a),
       total_credit := total_credit v + (if falsy_string (account a) then 0 else line_credit a),
       errors := errors v @ line_errors a,
       warnings := warnings v @ line_warnings a,
       is_valid := is_valid v \<and> line_errors a = []\<rparr>"
  by (simp add: check_account_def add_error_def add_warning_def line_errors_def line_warnings_def
      line_debit_def line_credit_def Let_def)

lemma check_accounts_eq:
  "check_accounts ls v =
     v\<lparr>total_debit := total_debit v + sum_list (map line_debit (named_lines ls)),
       total_credit := total_credit v + sum_list (map line_credit (named_lines ls)),
       errors := errors v @ concat (map line_errors ls),
       warnings := warnings v @ concat (map line_warnings ls),
       is_valid := is_valid v \<and> concat (map line_errors ls) = []\<rparr>"
proof (induction ls arbitrary: v)
  case Nil
  then show ?case by (simp add: named_lines_def)
next
  case (Cons a ls)
  show ?case
    by (simp add: Cons.IH check_account_eq named_lines_def add.assoc)
qed

lemma validate_no_lines:
  assumes "lines_of je = []"
  shows "validateJournalEntry fmt je =
     \<lparr>is_valid = False, total_debit = 0, total_credit = 0, difference = 0,
      errors = header_errors je @ [''At least one account entry is required''], warnings = []\<rparr>"
proof (cases "accounts je")
  case None
  then show ?thesis
    by (simp add: validateJournalEntry_def header_errors_def add_error_def Let_def)
next
  case (Some ls)
  with assms have "ls = []" by (simp add: lines_of_def)
  with Some show ?thesis
    by (simp add: validateJournalEntry_def header_errors_def add_error_def Let_def)
qed

lemma validate_lines:
  assumes "accounts je = Some ls" and "ls \<noteq> []"
  shows "validateJournalEntry fmt je =
     \<lparr>is_valid = (header_errors je = [] \<and> 2 \<le> length ls \<and> concat (map line_errors ls) = [] \<and>
                 \<not> \<bar>spec_difference je\<bar> > 1 / 100),
      total_debit = spec_total_debit je, total_credit = spec_total_credit je,
      difference = spec_difference je,
      errors = header_errors je @
               (if length ls < 2 then [''Journal entry must have at least 2 account entries''] else []) @
               concat (map line_errors ls) @
               (if \<bar>spec_difference je\<bar> > 1 / 100
                then [unbalanced_error fmt (spec_total_debit je) (spec_total_credit je) (spec_difference je)]
                else []),
      warnings = concat (map line_warnings ls)\<rparr>"
proof -
  define big where "big = (\<bar>spec_difference je\<bar> > 1 / 100)"
  define hdr where "hdr = header_errors je"
  define v2 where "v2 = \<lparr>is_valid = (hdr = []), total_debit = (0::real), total_credit = (0::real),
      difference = (0::real), errors = hdr, warnings = []\<rparr>"
  define v3 where "v3 = (if length ls < 2
                         then add_error ''Journal entry must have at least 2 account entries'' v2 else v2)"
  define v4 where "v4 = check_accounts ls v3"
  have l: "lines_of je = ls" using assms by (simp add: lines_of_def)
  have td: "round_cents (sum_list (map line_debit (named_lines ls))) = spec_total_debit je"
    by (simp only: spec_total_debit_def l)
  have tc: "round_cents (sum_list (map line_credit (named_lines ls))) = spec_total_credit je"
    by (simp only: spec_total_credit_def l)
  have d: "round_cents (spec_total_debit je - spec_total_credit je) = spec_difference je"
    by (simp only: spec_difference_def)
  have len: "length ls \<noteq> 0" using assms(2) by simp
  have v2: "(let v0 = \<lparr>is_valid = True, total_debit = 0, total_credit = 0, difference = 0,
                errors = [], warnings = []\<rparr>;
          v1 = (if falsy_string (posting_date je) then add_error ''posting_date is required'' v0 else v0)
      in (if falsy_string (company je) then add_error ''company is required'' v1 else v1)) = v2"
    by (simp add: v2_def hdr_def header_errors_def add_error_def Let_def)
  have v3: "v3 = \<lparr>is_valid = (hdr = [] \<and> 2 \<le> length ls), total_debit = 0, total_credit = 0, difference = 0,
      errors = hdr @ (if length ls < 2 then [''Journal entry must have at least 2 account entries''] else []), warnings = []\<rparr>"
    by (simp add: v3_def v2_def add_error_def not_less)
  have v4: "v4 = \<lparr>is_valid = (hdr = [] \<and> 2 \<le> length ls \<and> concat (map line_errors ls) = []),
      total_debit = sum_list (map line_debit (named_lines ls)),
      total_credit = sum_list (map line_credit (named_lines ls)), difference = 0,
      errors = hdr @ (if length ls < 2 then [''Journal entry must have at least 2 account entries''] else []) @ concat (map line_errors ls),
      warnings = concat (map line_warnings ls)\<rparr>"
    by (simp add: v4_def v3 check_accounts_eq)
  have "validateJournalEntry fmt je =
     (let v5 = v4\<lparr>total_debit := round_cents (total_debit v4)\<rparr>;
                   v6 = v5\<lparr>total_credit := round_cents (total_credit v5)\<rparr>;
                   v7 = v6\<lparr>difference := round_cents (total_debit v6 - total_credit v6)\<rparr>
               in (if \<bar>difference v7\<bar> > 1 / 100
                   then add_error (unbalanced_error fmt (total_debit v7) (total_credit v7) (difference v7)) v7
                   else v7))"
    unfolding validateJournalEntry_def
    apply (subst Let_def)
    apply (subst Let_def)
    apply (subst Let_def)
    using len by (simp only: assms(1) option.case if_False v2[unfolded Let_def] v3_def[symmetric] v4_def[symmetric] Let_def round_cents_def)
  also have "\<dots> = (let v7 = v4\<lparr>total_debit := spec_total_debit je, total_credit := spec_total_credit je,
         difference := spec_difference je\<rparr> in if big then add_error (unbalanced_error fmt (spec_total_debit je) (spec_total_credit je) (spec_difference je)) v7
                   else v7)"
    unfolding Let_def big_def
    by (simp only: v4 JournalEntryValidation.simps td tc d)
  also have "\<dots> = \<lparr>is_valid = (hdr = [] \<and> 2 \<le> length ls \<and> concat (map line_errors ls) = [] \<and> \<not> big),
      total_debit = spec_total_debit je, total_credit = spec_total_credit je,
      difference = spec_difference je,
      errors = hdr @
               (if length ls < 2 then [''Journal entry must have at least 2 account entries''] else []) @
               concat (map line_errors ls) @
               (if big
                then [unbalanced_error fmt (spec_total_debit je) (spec_total_credit je) (spec_difference je)]
                else []),
      warnings = concat (map line_warnings ls)\<rparr>"
    by (cases big) (simp_all add: v4 add_error_def Let_def)
  finally show ?thesis unfolding big_def hdr_def .
qed

text \<open>The same for the validator in the arithmetic of the runtime.\<close>

lemma check_account_with_eq:
  "check_account_with ar a v =
     v\<lparr>total_debit := (if falsy_string (account a) then total_debit v
                        else js_add ar (total_debit v) (line_debit_with ar a)),
       total_credit := (if falsy_string (account a) then total_credit v
                         else js_add ar (total_credit v) (line_credit_with ar a)),
       errors := errors v @ line_errors_with ar a,
       warnings := warnings v @ line_warnings_with ar a,
       is_valid := is_valid v \<and> line_errors_with ar a = []\<rparr>"
  by (simp add: check_account_with_def add_error_def add_warning_def line_errors_with_def
      line_warnings_with_def line_debit_with_def line_credit_with_def Let_def)

lemma check_accounts_with_eq:
  "check_accounts_with ar ls v =
     v\<lparr>total_debit := foldl (js_add ar) (total_debit v) (map (line_debit_with ar) (named_lines ls)),
       total_credit := foldl (js_add ar) (total_credit v) (map (line_credit_with ar) (named_lines ls)),
       errors := errors v @ concat (map (line_errors_with ar) ls),
       warnings := warnings v @ concat (map (line_warnings_with ar) ls),
       is_valid := is_valid v \<and> concat (map (line_errors_with ar) ls) = []\<rparr>"
proof (induction ls arbitrary: v)
  case Nil
  then show ?case by (simp add: named_lines_def)
next
  case (Cons a ls)
  show ?case
    by (simp add: Cons.IH check_account_with_eq named_lines_def)
qed


lemma validate_with_lines:
  assumes "accounts je = Some ls" and "ls \<noteq> []"
  shows "validateJournalEntry_with ar je =
     \<lparr>is_valid = (header_errors je = [] \<and> 2 \<le> length ls \<and> concat (map (line_errors_with ar) ls) = [] \<and>
                 \<not> js_gt ar (js_abs ar (computed_difference ar je)) (js_cent ar)),
      total_debit = computed_total_debit ar je, total_credit = computed_total_credit ar je,
      difference = computed_difference ar je,
      errors = header_errors je @
               (if length ls < 2 then [''Journal entry must have at least 2 account entries''] else []) @
               concat (map (line_errors_with ar) ls) @
               (if js_gt ar (js_abs ar (computed_difference ar je)) (js_cent ar)
                then [unbalanced_error (js_string ar) (computed_total_debit ar je)
                        (computed_total_credit ar je) (computed_difference ar je)]
                else []),
      warnings = concat (map (line_warnings_with ar) ls)\<rparr>"
proof -
  define big where "big = js_gt ar (js_abs ar (computed_difference ar je)) (js_cent ar)"
  define hdr where "hdr = header_errors je"
  define v2 where "v2 = \<lparr>is_valid = (hdr = []), total_debit = js_zero ar, total_credit = js_zero ar,
      difference = js_zero ar, errors = hdr, warnings = []\<rparr>"
  define v3 where "v3 = (if length ls < 2
                         then add_error ''Journal entry must have at least 2 account entries'' v2 else v2)"
  define v4 where "v4 = check_accounts_with ar ls v3"
  have l: "lines_of je = ls" using assms by (simp add: lines_of_def)
  have td: "to_cents ar (foldl (js_add ar) (js_zero ar) (map (line_debit_with ar) (named_lines ls))) =
            computed_total_debit ar je"
    by (simp only: computed_total_debit_def l)
  have tc: "to_cents ar (foldl (js_add ar) (js_zero ar) (map (line_credit_with ar) (named_lines ls))) =
            computed_total_credit ar je"
    by (simp only: computed_total_credit_def l)
  have d: "to_cents ar (js_sub ar (computed_total_debit ar je) (computed_total_credit ar je)) =
           computed_difference ar je"
    by (simp only: computed_difference_def)
  have len: "length ls \<noteq> 0" using assms(2) by simp
  have v2: "(let v0 = \<lparr>is_valid = True, total_debit = js_zero ar, total_credit = js_zero ar,
                difference = js_zero ar, errors = [], warnings = []\<rparr>;
          v1 = (if falsy_string (posting_date je) then add_error ''posting_date is required'' v0 else v0)
      in (if falsy_string (company je) then add_error ''company is required'' v1 else v1)) = v2"
    by (simp add: v2_def hdr_def header_errors_def add_error_def Let_def)
  have v3: "v3 = \<lparr>is_valid = (hdr = [] \<and> 2 \<le> length ls), total_debit = js_zero ar,
      total_credit = js_zero ar, difference = js_zero ar,
      errors = hdr @ (if length ls < 2 then [''Journal entry must have at least 2 account entries''] else []),
      warnings = []\<rparr>"
    by (simp add: v3_def v2_def add_error_def not_less)
  have v4: "v4 = \<lparr>is_valid = (hdr = [] \<and> 2 \<le> length ls \<and> concat (map (line_errors_with ar) ls) = []),
      total_debit = foldl (js_add ar) (js_zero ar) (map (line_debit_with ar) (named_lines ls)),
      total_credit = foldl (js_add ar) (js_zero ar) (map (line_credit_with ar) (named_lines ls)),
      difference = js_zero ar,
      errors = hdr @ (if length ls < 2 then [''Journal entry must have at least 2 account entries''] else []) @
               concat (map (line_errors_with ar) ls),
      warnings = concat (map (line_warnings_with ar) ls)\<rparr>"
    by (simp add: v4_def v3 check_accounts_with_eq)
  have "validateJournalEntry_with ar je =
     (let v5 = v4\<lparr>total_debit := to_cents ar (total_debit v4)\<rparr>;
          v6 = v5\<lparr>total_credit := to_cents ar (total_credit v5)\<rparr>;
          v7 = v6\<lparr>difference := to_cents ar (js_sub ar (total_debit v6) (total_credit v6))\<rparr>
      in (if js_gt ar (js_abs ar (difference v7)) (js_cent ar)
          then add_error (unbalanced_error (js_string ar) (total_debit v7) (total_credit v7) (difference v7)) v7
          else v7))"
    unfolding validateJournalEntry_with_def
    apply (subst Let_def)
    apply (subst Let_def)
    apply (subst Let_def)
    using len by (simp only: assms(1) option.case if_False v2[unfolded Let_def] v3_def[symmetric]
        v4_def[symmetric] Let_def to_cents_def)
  also have "\<dots> = (let v7 = v4\<lparr>total_debit := computed_total_debit ar je,
         total_credit := computed_total_credit ar je, difference := computed_difference ar je\<rparr>
       in if big then add_error (unbalanced_error (js_string ar) (computed_total_debit ar je)
                 (computed_total_credit ar je) (computed_difference ar je)) v7
          else v7)"
    unfolding Let_def big_def
    by (simp only: v4 JournalEntryValidation.simps td tc d)
  also have "\<dots> = \<lparr>is_valid = (hdr = [] \<and> 2 \<le> length ls \<and> concat (map (line_errors_with ar) ls) = [] \<and> \<not> big),
      total_debit = computed_total_debit ar je, total_credit = computed_total_credit ar je,
      difference = computed_difference ar je,
      errors = hdr @
               (if length ls < 2 then [''Journal entry must have at least 2 account entries''] else []) @
               concat (map (line_errors_with ar) ls) @
               (if big
                then [unbalanced_error (js_string ar) (computed_total_debit ar je)
                        (computed_total_credit ar je) (computed_difference ar je)]
                else []),
      warnings = concat (map (line_warnings_with ar) ls)\<rparr>"
    by (cases big) (simp_all add: v4 add_error_def Let_def)
  finally show ?thesis unfolding big_def hdr_def .
qed

text \<open>At exact arithmetic the two validators are one.\<close>

lemma check_account_exact:
  "check_account_with (exact_arithmetic fmt) a v = check_account a v"
proof -
  have d: "line_debit_with (exact_arithmetic fmt) a = line_debit a"
    and c: "line_credit_with (exact_arithmetic fmt) a = line_credit a"
    by (simp_all add: line_debit_with_def line_credit_with_def line_debit_def line_credit_def
        number_or_def number_or_zero_def exact_arithmetic_def split: option.splits)
  have e: "line_errors_with (exact_arithmetic fmt) a = line_errors a"
    unfolding line_errors_with_def line_errors_def d c by (simp add: exact_arithmetic_def)
  have w: "line_warnings_with (exact_arithmetic fmt) a = line_warnings a"
    unfolding line_warnings_with_def line_warnings_def d c by (simp add: exact_arithmetic_def)
  show ?thesis
    unfolding check_account_with_eq check_account_eq d c e w by (simp add: exact_arithmetic_def)
qed

lemma check_accounts_exact:
  "check_accounts_with (exact_arithmetic fmt) ls v = check_accounts ls v"
  by (induction ls arbitrary: v) (simp_all add: check_account_exact)

lemma validateJournalEntry_exact:
  "validateJournalEntry_with (exact_arithmetic fmt) je = validateJournalEntry fmt je"
  unfolding validateJournalEntry_with_def validateJournalEntry_def check_accounts_exact
  by (simp only: exact_arithmetic_def arithmetic.simps)

text \<open>The definitions that evaluate the validator on a concrete draft.\<close>

lemmas eval_defs = validateJournalEntry_def check_account_def add_error_def add_warning_def
  falsy_string_def number_or_zero_def Math_round_def unbalanced_error_def cents_to_string_def
  digit_char_def digits.simps Let_def line_def draft_def template_string_def both_sides_warning_def neither_side_error_def
  spec_difference_def spec_total_debit_def spec_total_credit_def round_cents_def lines_of_def named_lines_def
  line_debit_def line_credit_def

section \<open>The claims about the validator\<close>



lemma header_errors_empty_iff:
  "header_errors je = [] \<longleftrightarrow> \<not> falsy_string (posting_date je) \<and> \<not> falsy_string (company je)"
  by (simp add: header_errors_def)

text \<open>
  C2, as stated, fails: a draft of three lines whose totals balance, one line having
  neither a debit nor a credit, is invalid.
\<close>

theorem balanced_draft_counterexample:
  "2 \<le> length (lines_of (draft ''2025-02-28'' ''Personal'' [line ''A'' 100 0, line ''B'' 0 100, line ''C'' 0 0])) \<and>
   \<bar>spec_difference (draft ''2025-02-28'' ''Personal'' [line ''A'' 100 0, line ''B'' 0 100, line ''C'' 0 0])\<bar> \<le> 1 / 100 \<and>
   \<not> is_valid (validateJournalEntry cents_to_string
       (draft ''2025-02-28'' ''Personal'' [line ''A'' 100 0, line ''B'' 0 100, line ''C'' 0 0])) \<and>
   errors (validateJournalEntry cents_to_string
       (draft ''2025-02-28'' ''Personal'' [line ''A'' 100 0, line ''B'' 0 100, line ''C'' 0 0])) =
     [''Account C has neither debit nor credit'']"
  by (simp add: eval_defs)

lemma line_errors_with_empty_iff:
  "concat (map (line_errors_with ar) ls) = [] \<longleftrightarrow>
     (\<forall>a \<in> set ls. \<not> falsy_string (account a) \<and>
        \<not> (js_eq ar (line_debit_with ar a) (js_zero ar) \<and> js_eq ar (line_credit_with ar a) (js_zero ar)))"
  by (induction ls) (auto simp: line_errors_with_def)

text \<open>
  C2, amended, in the arithmetic of the runtime: a draft with a posting date and a
  company, at least two lines, each naming an account and having a debit or a credit
  that is not \<^verbatim>\<open>=== 0\<close>, for which the validator's test "the computed difference is
  more than 0.01 in absolute value" is false, is valid, with no errors, and carries the
  computed totals and difference.
\<close>

theorem balanced_is_valid:
  assumes "\<not> falsy_string (posting_date je)" and "\<not> falsy_string (company je)"
    and "accounts je = Some ls" and "2 \<le> length ls"
    and "\<forall>a \<in> set ls. \<not> falsy_string (account a) \<and>
           \<not> (js_eq ar (line_debit_with ar a) (js_zero ar) \<and> js_eq ar (line_credit_with ar a) (js_zero ar))"
    and "\<not> js_gt ar (js_abs ar (computed_difference ar je)) (js_cent ar)"
  shows "is_valid (validateJournalEntry_with ar je) \<and> errors (validateJournalEntry_with ar je) = [] \<and>
         total_debit (validateJournalEntry_with ar je) = computed_total_debit ar je \<and>
         total_credit (validateJournalEntry_with ar je) = computed_total_credit ar je \<and>
         difference (validateJournalEntry_with ar je) = computed_difference ar je"
proof -
  have ne: "ls \<noteq> []" using assms(4) by auto
  have h: "header_errors je = []" using assms(1,2) by (simp add: header_errors_empty_iff)
  have l: "concat (map (line_errors_with ar) ls) = []" using assms(5) by (simp only: line_errors_with_empty_iff)
  have n: "\<not> length ls < 2" using assms(4) by simp
  show ?thesis
    by (simp only: validate_with_lines [OF assms(3) ne] JournalEntryValidation.simps h l assms(6) n assms(4)
        if_False append_Nil simp_thms)
qed

theorem balanced_is_valid_witness:
  "\<not> falsy_string (posting_date (draft ''2025-02-28'' ''Personal'' [line ''A'' 1500 0, line ''B'' 0 1500])) \<and>
   \<not> falsy_string (company (draft ''2025-02-28'' ''Personal'' [line ''A'' 1500 0, line ''B'' 0 1500])) \<and>
   accounts (draft ''2025-02-28'' ''Personal'' [line ''A'' 1500 0, line ''B'' 0 1500]) =
     Some [line ''A'' 1500 0, line ''B'' 0 1500] \<and>
   2 \<le> length [line ''A'' 1500 0, line ''B'' 0 1500] \<and>
   \<not> falsy_string (account (line ''A'' 1500 0)) \<and>
   \<not> js_eq (exact_arithmetic cents_to_string)
       (line_debit_with (exact_arithmetic cents_to_string) (line ''A'' 1500 0))
       (js_zero (exact_arithmetic cents_to_string)) \<and>
   \<not> falsy_string (account (line ''B'' 0 1500)) \<and>
   \<not> js_eq (exact_arithmetic cents_to_string)
       (line_credit_with (exact_arithmetic cents_to_string) (line ''B'' 0 1500))
       (js_zero (exact_arithmetic cents_to_string)) \<and>
   \<not> js_gt (exact_arithmetic cents_to_string)
       (js_abs (exact_arithmetic cents_to_string)
          (computed_difference (exact_arithmetic cents_to_string)
             (draft ''2025-02-28'' ''Personal'' [line ''A'' 1500 0, line ''B'' 0 1500])))
       (js_cent (exact_arithmetic cents_to_string)) \<and>
   validateJournalEntry_with (exact_arithmetic cents_to_string)
       (draft ''2025-02-28'' ''Personal'' [line ''A'' 1500 0, line ''B'' 0 1500]) =
     \<lparr>is_valid = True, total_debit = 1500, total_credit = 1500, difference = 0,
      errors = [], warnings = []\<rparr>"
proof -
  let ?ar = "exact_arithmetic cents_to_string"
  let ?ls = "[line ''A'' 1500 0, line ''B'' 0 1500]"
  let ?je = "draft ''2025-02-28'' ''Personal'' ?ls"
  have 1: "\<not> falsy_string (posting_date ?je)" by (simp add: eval_defs)
  have 2: "\<not> falsy_string (company ?je)" by (simp add: eval_defs)
  have 3: "accounts ?je = Some ?ls" by (simp add: draft_def)
  have 4: "2 \<le> length ?ls" by simp
  have 7: "\<not> falsy_string (account (line ''A'' 1500 0))"
    "\<not> js_eq ?ar (line_debit_with ?ar (line ''A'' 1500 0)) (js_zero ?ar)"
    "\<not> falsy_string (account (line ''B'' 0 1500))"
    "\<not> js_eq ?ar (line_credit_with ?ar (line ''B'' 0 1500)) (js_zero ?ar)"
    by (simp_all add: exact_arithmetic_def line_debit_with_def line_credit_with_def number_or_def
        line_def falsy_string_def)
  have 5: "\<forall>a \<in> set ?ls. \<not> falsy_string (account a) \<and>
           \<not> (js_eq ?ar (line_debit_with ?ar a) (js_zero ?ar) \<and> js_eq ?ar (line_credit_with ?ar a) (js_zero ?ar))"
    using 7 by simp
  have v: "validateJournalEntry_with ?ar ?je =
     \<lparr>is_valid = True, total_debit = 1500, total_credit = 1500, difference = 0,
      errors = [], warnings = []\<rparr>"
    unfolding validateJournalEntry_exact by (simp add: eval_defs)
  have ne: "?ls \<noteq> []" by simp
  have cd: "computed_difference ?ar ?je = 0"
    using validate_with_lines [OF 3 ne, of ?ar] unfolding v by simp
  have 6: "\<not> js_gt ?ar (js_abs ?ar (computed_difference ?ar ?je)) (js_cent ?ar)"
    unfolding cd by (simp add: exact_arithmetic_def)
  show ?thesis
    using balanced_is_valid [OF 1 2 3 4 5 6] 1 2 3 4 6 7 v by blast
qed

text \<open>
  C4, as stated, fails: a draft without lines and with an empty posting date gets two
  errors, not one.
\<close>

theorem no_lines_counterexample:
  "accounts (draft [] ''Personal'' []) = Some [] \<and>
   errors (validateJournalEntry cents_to_string (draft [] ''Personal'' [])) =
     [''posting_date is required'', ''At least one account entry is required''] \<and>
   length (errors (validateJournalEntry cents_to_string (draft [] ''Personal'' []))) = 2"
  by (simp add: eval_defs)

text \<open>
  C4, amended: for a draft whose accounts array is absent or empty the validator
  returns at once: the entry is invalid, the totals and the difference are zero, there
  are no warnings, and the errors are those for a missing posting date and company
  (if any) followed by "At least one account entry is required"; that error is the only
  one when the posting date and the company are present.
\<close>

theorem no_lines_is_invalid:
  assumes "accounts je = None \<or> accounts je = Some []"
  shows "\<not> is_valid (validateJournalEntry fmt je) \<and>
         total_debit (validateJournalEntry fmt je) = 0 \<and>
         total_credit (validateJournalEntry fmt je) = 0 \<and>
         difference (validateJournalEntry fmt je) = 0 \<and>
         warnings (validateJournalEntry fmt je) = [] \<and>
         errors (validateJournalEntry fmt je) =
           (if falsy_string (posting_date je) then [''posting_date is required''] else []) @
           (if falsy_string (company je) then [''company is required''] else []) @
           [''At least one account entry is required''] \<and>
         (\<not> falsy_string (posting_date je) \<and> \<not> falsy_string (company je) \<longrightarrow>
            errors (validateJournalEntry fmt je) = [''At least one account entry is required''])"
proof -
  have "lines_of je = []" using assms by (auto simp: lines_of_def)
  then show ?thesis by (simp add: validate_no_lines header_errors_def)
qed

theorem no_lines_is_invalid_witness:
  "(accounts (draft ''2025-02-28'' ''Personal'' []) = None \<or>
    accounts (draft ''2025-02-28'' ''Personal'' []) = Some []) \<and>
   \<not> falsy_string (posting_date (draft ''2025-02-28'' ''Personal'' [])) \<and>
   \<not> falsy_string (company (draft ''2025-02-28'' ''Personal'' [])) \<and>
   \<not> is_valid (validateJournalEntry cents_to_string (draft ''2025-02-28'' ''Personal'' [])) \<and>
   errors (validateJournalEntry cents_to_string (draft ''2025-02-28'' ''Personal'' [])) =
     [''At least one account entry is required'']"
proof -
  let ?je = "draft ''2025-02-28'' ''Personal'' []"
  have 1: "accounts ?je = None \<or> accounts ?je = Some []" by (simp add: draft_def)
  have 2: "\<not> falsy_string (posting_date ?je)" "\<not> falsy_string (company ?je)"
    by (simp_all add: draft_def falsy_string_def)
  show ?thesis
    using no_lines_is_invalid [OF 1, of cents_to_string] 1 2 by blast
qed

lemma in_concat_map: "a \<in> set ls \<Longrightarrow> x \<in> set (f a) \<Longrightarrow> x \<in> set (concat (map f ls))"
  by auto

lemma validate_valid_iff_no_errors:
  "is_valid (validateJournalEntry fmt je) \<longleftrightarrow> errors (validateJournalEntry fmt je) = []"
proof (cases "lines_of je = []")
  case True
  then show ?thesis by (simp add: validate_no_lines)
next
  case False
  then obtain ls where ls: "accounts je = Some ls" "ls \<noteq> []"
    by (auto simp: lines_of_def split: option.splits)
  show ?thesis
    by (cases "length ls < 2"; cases "\<bar>spec_difference je\<bar> > 1 / 100")
       (simp_all only: validate_lines [OF ls] JournalEntryValidation.simps if_True if_False
          append_is_Nil_conv not_less simp_thms not_Cons_self2 list.simps, simp_all)
qed

text \<open>
  C5, as stated, fails: line A below has a debit and a credit that are both non-zero
  (both negative), and the validator appends no warning for it; the only warning is the
  one for line B.
\<close>

theorem both_sides_counterexample:
  "accounts (draft ''2025-02-28'' ''Personal'' [line ''A'' (-5) (-5), line ''B'' 5 5]) =
     Some [line ''A'' (-5) (-5), line ''B'' 5 5] \<and>
   line_debit (line ''A'' (-5) (-5)) \<noteq> 0 \<and> line_credit (line ''A'' (-5) (-5)) \<noteq> 0 \<and>
   warnings (validateJournalEntry cents_to_string
       (draft ''2025-02-28'' ''Personal'' [line ''A'' (-5) (-5), line ''B'' 5 5])) =
     [''Account B has both debit and credit - this is unusual'']"
  by (simp add: eval_defs)

text \<open>
  C5, amended: for a line of the draft that names an account and whose debit and credit
  are both greater than zero, the validator appends the both-sides warning, and the loop
  body on that line appends no error and leaves \<open>is_valid\<close> as it was; for a line whose
  debit and credit are both zero (or absent) the loop body appends one error and the
  entry is invalid; and \<open>is_valid\<close> holds exactly when no error was appended, whatever
  the warnings.
\<close>

theorem both_sides_is_warning:
  assumes "accounts je = Some ls" and "a \<in> set ls"
  shows "(\<not> falsy_string (account a) \<and> 0 < line_debit a \<and> 0 < line_credit a \<longrightarrow>
            both_sides_warning (template_string (account a)) \<in> set (warnings (validateJournalEntry fmt je)) \<and>
            (\<forall>v. warnings (check_account a v) = warnings v @ [both_sides_warning (template_string (account a))] \<and>
                 errors (check_account a v) = errors v \<and>
                 is_valid (check_account a v) = is_valid v)) \<and>
         (line_debit a = 0 \<and> line_credit a = 0 \<longrightarrow>
            \<not> is_valid (validateJournalEntry fmt je) \<and>
            (\<forall>v. \<exists>e. errors (check_account a v) = errors v @ [e] \<and> \<not> is_valid (check_account a v))) \<and>
         (is_valid (validateJournalEntry fmt je) \<longleftrightarrow> errors (validateJournalEntry fmt je) = [])"
proof -
  have ne: "ls \<noteq> []" using assms(2) by auto
  have w: "warnings (validateJournalEntry fmt je) = concat (map line_warnings ls)"
    by (simp add: validate_lines [OF assms(1) ne])
  have v: "is_valid (validateJournalEntry fmt je) \<Longrightarrow> concat (map line_errors ls) = []"
    by (simp add: validate_lines [OF assms(1) ne])
  have 1: "both_sides_warning (template_string (account a)) \<in> set (warnings (validateJournalEntry fmt je))"
    if "\<not> falsy_string (account a) \<and> 0 < line_debit a \<and> 0 < line_credit a"
    unfolding w using assms(2) that by (intro in_concat_map [of a]) (simp_all add: line_warnings_def)
  have 2: "warnings (check_account a v) = warnings v @ [both_sides_warning (template_string (account a))] \<and>
                 errors (check_account a v) = errors v \<and>
                 is_valid (check_account a v) = is_valid v"
    if "\<not> falsy_string (account a) \<and> 0 < line_debit a \<and> 0 < line_credit a" for v
    using that by (simp add: check_account_eq line_warnings_def line_errors_def)
  have 3: "\<not> is_valid (validateJournalEntry fmt je)" if "line_debit a = 0 \<and> line_credit a = 0"
  proof
    assume "is_valid (validateJournalEntry fmt je)"
    then have "concat (map line_errors ls) = []" by (rule v)
    then have "line_errors a = []" using assms(2) by auto
    then show False using that by (simp add: line_errors_def split: if_splits)
  qed
  have 4: "\<exists>e. errors (check_account a v) = errors v @ [e] \<and> \<not> is_valid (check_account a v)"
    if "line_debit a = 0 \<and> line_credit a = 0" for v
    using that by (simp add: check_account_eq line_errors_def)
  show ?thesis
    using 1 2 3 4 validate_valid_iff_no_errors [of fmt je] by blast
qed

theorem both_sides_is_warning_witness:
  "accounts (draft ''2025-02-28'' ''Personal'' [line ''A'' 5 5, line ''B'' 0 0]) =
     Some [line ''A'' 5 5, line ''B'' 0 0] \<and>
   line ''A'' 5 5 \<in> set [line ''A'' 5 5, line ''B'' 0 0] \<and>
   line ''B'' 0 0 \<in> set [line ''A'' 5 5, line ''B'' 0 0] \<and>
   (\<not> falsy_string (account (line ''A'' 5 5)) \<and> 0 < line_debit (line ''A'' 5 5) \<and> 0 < line_credit (line ''A'' 5 5)) \<and>
   (line_debit (line ''B'' 0 0) = 0 \<and> line_credit (line ''B'' 0 0) = 0) \<and>
   both_sides_warning (template_string (account (line ''A'' 5 5)))
     \<in> set (warnings (validateJournalEntry cents_to_string (draft ''2025-02-28'' ''Personal'' [line ''A'' 5 5, line ''B'' 0 0]))) \<and>
   \<not> is_valid (validateJournalEntry cents_to_string (draft ''2025-02-28'' ''Personal'' [line ''A'' 5 5, line ''B'' 0 0])) \<and>
   errors (validateJournalEntry cents_to_string (draft ''2025-02-28'' ''Personal'' [line ''A'' 5 5, line ''B'' 0 0])) \<noteq> []"
proof -
  let ?ls = "[line ''A'' 5 5, line ''B'' 0 0]"
  let ?je = "draft ''2025-02-28'' ''Personal'' ?ls"
  have 1: "accounts ?je = Some ?ls" by (simp add: draft_def)
  have 2: "line ''A'' 5 5 \<in> set ?ls" "line ''B'' 0 0 \<in> set ?ls" by simp_all
  have 3: "\<not> falsy_string (account (line ''A'' 5 5)) \<and> 0 < line_debit (line ''A'' 5 5) \<and> 0 < line_credit (line ''A'' 5 5)"
    by (simp add: eval_defs)
  have 4: "line_debit (line ''B'' 0 0) = 0 \<and> line_credit (line ''B'' 0 0) = 0"
    by (simp add: eval_defs)
  show ?thesis
    using both_sides_is_warning [OF 1 2(1), of cents_to_string]
          both_sides_is_warning [OF 1 2(2), of cents_to_string] 1 2 3 4 by blast
qed

text \<open>
  C9: on a line that names an account and whose debit and credit are both negative, the
  loop body only adds the two amounts to the totals: no warning, no error, \<open>is_valid\<close>
  unchanged. A draft of two such lines is reported valid, with negative totals.
\<close>

theorem negative_sides_unchecked:
  "(\<forall>a v. \<not> falsy_string (account a) \<and> line_debit a < 0 \<and> line_credit a < 0 \<longrightarrow>
       check_account a v =
         v\<lparr>total_debit := total_debit v + line_debit a, total_credit := total_credit v + line_credit a\<rparr>) \<and>
   validateJournalEntry cents_to_string
       (draft ''2025-02-28'' ''Personal'' [line ''A'' (-5) (-5), line ''B'' (-7) (-7)]) =
     \<lparr>is_valid = True, total_debit = - 12, total_credit = - 12, difference = 0,
      errors = [], warnings = []\<rparr>"
proof -
  have "check_account a v =
         v\<lparr>total_debit := total_debit v + line_debit a, total_credit := total_credit v + line_credit a\<rparr>"
    if "\<not> falsy_string (account a) \<and> line_debit a < 0 \<and> line_credit a < 0" for a v
    using that by (simp add: check_account_eq line_errors_def line_warnings_def)
  moreover have "validateJournalEntry cents_to_string
       (draft ''2025-02-28'' ''Personal'' [line ''A'' (-5) (-5), line ''B'' (-7) (-7)]) =
     \<lparr>is_valid = True, total_debit = - 12, total_credit = - 12, difference = 0,
      errors = [], warnings = []\<rparr>"
    by (simp add: eval_defs)
  ultimately show ?thesis by blast
qed

theorem negative_sides_unchecked_witness:
  "(\<not> falsy_string (account (line ''A'' (-5) (-5))) \<and> line_debit (line ''A'' (-5) (-5)) < 0 \<and>
    line_credit (line ''A'' (-5) (-5)) < 0) \<and>
   check_account (line ''A'' (-5) (-5))
     \<lparr>is_valid = True, total_debit = 0, total_credit = 0, difference = 0, errors = [], warnings = []\<rparr> =
     \<lparr>is_valid = True, total_debit = - 5, total_credit = - 5, difference = 0, errors = [], warnings = []\<rparr>"
proof -
  have h: "\<not> falsy_string (account (line ''A'' (-5) (-5))) \<and> line_debit (line ''A'' (-5) (-5)) < 0 \<and>
    line_credit (line ''A'' (-5) (-5)) < 0"
    by (simp add: eval_defs)
  have d: "line_debit (line ''A'' (-5) (-5)) = - 5" "line_credit (line ''A'' (-5) (-5)) = - 5"
    by (simp_all add: eval_defs)
  from negative_sides_unchecked have "check_account (line ''A'' (-5) (-5))
     \<lparr>is_valid = True, total_debit = 0, total_credit = 0, difference = 0, errors = [], warnings = []\<rparr> =
     \<lparr>is_valid = True, total_debit = 0, total_credit = 0, difference = 0, errors = [], warnings = []\<rparr>
       \<lparr>total_debit := total_debit \<lparr>is_valid = True, total_debit = 0, total_credit = 0, difference = 0, errors = [], warnings = []\<rparr> + line_debit (line ''A'' (-5) (-5)),
        total_credit := total_credit \<lparr>is_valid = True, total_debit = 0, total_credit = 0, difference = 0, errors = [], warnings = []\<rparr> + line_credit (line ''A'' (-5) (-5))\<rparr>"
    using h by blast
  then show ?thesis using h by (simp add: d)
qed

section \<open>The claim about the search\<close>

lemmas search_defs = searchBankTransactions_def getDocList_def amount_filter_def amount_def
  or_number_def number_or_zero_def transaction_def spec_amount_def

lemma amount_eq_spec_amount:
  "number_or_zero (deposit t) \<ge> 0 \<Longrightarrow> amount t = spec_amount t"
  by (auto simp: amount_def spec_amount_def or_number_def number_or_zero_def split: option.splits)

text \<open>
  C6, as stated, fails: for a transaction with deposit -5 and withdrawal 200 the code
  takes -5 as the amount (the deposit is not zero) and drops the transaction from a
  search with \<open>minAmount = 100\<close>, while "the deposit if it is positive, else the
  withdrawal" is 200 and would keep it.
\<close>

theorem search_amount_counterexample:
  "searchBankTransactions (\<lambda>doctype fs field_names limit. Inr [transaction ''Reversal'' (Some (-5)) (Some 200)])
      None None None None None (Some 100) None = Inr [] \<and>
   spec_amount (transaction ''Reversal'' (Some (-5)) (Some 200)) = 200 \<and>
   amount (transaction ''Reversal'' (Some (-5)) (Some 200)) = - 5"
  by (simp add: search_defs)

text \<open>
  C6, amended: when the API answers with a list of candidates, the search returns, in
  the same order, the candidates whose amount is at least \<open>minAmount\<close> (when given) and
  at most \<open>maxAmount\<close> (when given), where the amount is the deposit if it is present
  and not zero, else the withdrawal if it is present and not zero, else 0; this is
  "the deposit if positive, else the withdrawal" for every transaction whose deposit is
  not negative. For the three transactions of the example and the range 100 to 1000 the
  result is the withdrawal of 250 alone.
\<close>

theorem search_filters_by_amount:
  assumes "api ''Bank Transaction'' (build_filters bankAccount company_name status_name fromDate toDate)
             [''name'', ''date'', ''deposit'', ''withdrawal'', ''description'', ''reference_number'',
              ''transaction_id'', ''bank_account'', ''company'', ''currency'', ''status''] 0 = Inr candidates"
  shows "searchBankTransactions api bankAccount company_name status_name fromDate toDate minAmount maxAmount =
           Inr (filter (\<lambda>t. (\<forall>m. minAmount = Some m \<longrightarrow> m \<le> amount t) \<and>
                            (\<forall>m. maxAmount = Some m \<longrightarrow> amount t \<le> m)) candidates) \<and>
         (\<forall>t. amount t =
            (case deposit t of
               Some d \<Rightarrow> if d \<noteq> 0 then d else number_or_zero (withdrawal t)
             | None \<Rightarrow> number_or_zero (withdrawal t))) \<and>
         (\<forall>t. 0 \<le> number_or_zero (deposit t) \<longrightarrow> amount t = spec_amount t) \<and>
         searchBankTransactions statement_api None None None None None (Some 100) (Some 1000) =
           Inr [transaction ''Utility Payment'' None (Some 250)]"
proof -
  have f: "amount_filter minAmount maxAmount =
        (\<lambda>t. (\<forall>m. minAmount = Some m \<longrightarrow> m \<le> amount t) \<and> (\<forall>m. maxAmount = Some m \<longrightarrow> amount t \<le> m))"
    by (rule ext) (auto simp: amount_filter_def split: option.splits)
  have 1: "searchBankTransactions api bankAccount company_name status_name fromDate toDate minAmount maxAmount =
           Inr (filter (\<lambda>t. (\<forall>m. minAmount = Some m \<longrightarrow> m \<le> amount t) \<and>
                            (\<forall>m. maxAmount = Some m \<longrightarrow> amount t \<le> m)) candidates)"
  proof (cases "minAmount = None \<and> maxAmount = None")
    case True
    then show ?thesis using assms by (simp add: searchBankTransactions_def getDocList_def)
  next
    case False
    then show ?thesis using assms
      by (simp only: searchBankTransactions_def getDocList_def f sum.case if_True de_Morgan_conj)
  qed
  have 2: "amount t =
            (case deposit t of
               Some d \<Rightarrow> if d \<noteq> 0 then d else number_or_zero (withdrawal t)
             | None \<Rightarrow> number_or_zero (withdrawal t))" for t
    by (simp add: amount_def or_number_def number_or_zero_def split: option.splits)
  have 3: "searchBankTransactions statement_api None None None None None (Some 100) (Some 1000) =
           Inr [transaction ''Utility Payment'' None (Some 250)]"
    by (simp add: search_defs statement_api_def)
  show ?thesis using 1 2 3 amount_eq_spec_amount by blast
qed

theorem search_filters_by_amount_witness:
  "statement_api ''Bank Transaction'' (build_filters None None None None None)
     [''name'', ''date'', ''deposit'', ''withdrawal'', ''description'', ''reference_number'',
      ''transaction_id'', ''bank_account'', ''company'', ''currency'', ''status''] 0 =
     Inr [transaction ''Salary Deposit'' (Some 1500) None,
          transaction ''Utility Payment'' None (Some 250),
          transaction ''Grocery Store'' None (Some 45.5)] \<and>
   searchBankTransactions statement_api None None None None None (Some 100) (Some 1000) =
     Inr [transaction ''Utility Payment'' None (Some 250)]"
proof -
  have h: "statement_api ''Bank Transaction'' (build_filters None None None None None)
     [''name'', ''date'', ''deposit'', ''withdrawal'', ''description'', ''reference_number'',
      ''transaction_id'', ''bank_account'', ''company'', ''currency'', ''status''] 0 =
     Inr [transaction ''Salary Deposit'' (Some 1500) None,
          transaction ''Utility Payment'' None (Some 250),
          transaction ''Grocery Store'' None (Some 45.5)]"
    by (simp add: statement_api_def)
  have a: "amount (transaction n (Some x) None) = x" "amount (transaction n None (Some x)) = x"
    for n x
    by (simp_all add: search_defs)
  have "searchBankTransactions statement_api None None None None None (Some 100) (Some 1000) =
           Inr (filter (\<lambda>t. (\<forall>m. Some 100 = Some m \<longrightarrow> m \<le> amount t) \<and>
                            (\<forall>m. Some 1000 = Some m \<longrightarrow> amount t \<le> m))
                  [transaction ''Salary Deposit'' (Some 1500) None,
                   transaction ''Utility Payment'' None (Some 250),
                   transaction ''Grocery Store'' None (Some 45.5)])"
    using search_filters_by_amount
        [where api = statement_api and bankAccount = None and company_name = None and
           status_name = None and fromDate = None and toDate = None and
           minAmount = "Some 100" and maxAmount = "Some 1000", OF h]
    by (rule conjunct1)
  then show ?thesis
    using h by (simp add: a)
qed

section \<open>The claims about creating an entry\<close>

lemma error_message_Some: "m \<noteq> [] \<Longrightarrow> error_message (Some m) = m"
  by (simp add: error_message_def falsy_string_def template_string_def)

text \<open>
  C7: when validation is not skipped and the validator reports the draft invalid,
  \<open>createJournalEntry\<close> throws the validation failure and the world is unchanged: no
  request was sent to the remote system.
\<close>

theorem invalid_draft_not_sent:
  assumes "\<not> skipValidation" and "\<not> is_valid (validateJournalEntry fmt je)"
  shows "createJournalEntry gw fmt je skipValidation w =
           (Inl (''Failed to create journal entry: Journal entry validation failed: '' @
                 join '', '' (errors (validateJournalEntry fmt je))), w)"
  using assms by (simp add: createJournalEntry_def Let_def error_message_Some)

theorem invalid_draft_not_sent_witness:
  "\<not> False \<and>
   \<not> is_valid (validateJournalEntry cents_to_string (draft ''2025-02-28'' ''Personal'' [line ''A'' 100 0, line ''B'' 0 90])) \<and>
   createJournalEntry accepting_gateway cents_to_string
       (draft ''2025-02-28'' ''Personal'' [line ''A'' 100 0, line ''B'' 0 90]) False [] =
     (Inl ''Failed to create journal entry: Journal entry validation failed: Debits (100) do not equal credits (90). Difference: 10'', [])"
proof -
  let ?je = "draft ''2025-02-28'' ''Personal'' [line ''A'' 100 0, line ''B'' 0 90]"
  have 1: "\<not> False" by simp
  have 2: "\<not> is_valid (validateJournalEntry cents_to_string ?je)" by (simp add: eval_defs)
  have 3: "errors (validateJournalEntry cents_to_string ?je) =
      [''Debits (100) do not equal credits (90). Difference: 10'']" by (simp add: eval_defs)
  show ?thesis
    using invalid_draft_not_sent [OF 1 2, of accepting_gateway "[]"] 2 by (simp add: 3)
qed

lemma flag_Some: "flag (Some b) = b"
  by (simp add: flag_def)

lemma createDocument_ok:
  "gw w (Post_resource doctype doc) = Inr r \<Longrightarrow>
     createDocument gw doctype doc w = (Inr r, w @ [Post_resource doctype doc])"
  by (simp add: createDocument_def)

lemma createJournalEntry_ok:
  assumes "skipValidation \<or> is_valid (validateJournalEntry fmt je)"
    and "gw w (Post_resource ''Journal Entry'' je) = Inr r"
  shows "createJournalEntry gw fmt je skipValidation w = (Inr r, w @ [Post_resource ''Journal Entry'' je])"
  using assms by (auto simp add: createJournalEntry_def Let_def createDocument_ok)

lemma submitJournalEntry_failed:
  assumes "gw w (Post_method ''frappe.client.submit'' ''Journal Entry'' n) = Inl e"
  shows "submitJournalEntry gw n w =
     (Inl (''Failed to submit journal entry '' @ n @ '': Failed to call method frappe.client.submit: '' @
           error_message e),
      w @ [Post_method ''frappe.client.submit'' ''Journal Entry'' n])"
  using assms by (simp add: submitJournalEntry_def callMethod_def error_message_Some)

text \<open>
  C8: in the tool \<open>create_journal_entry\<close> with \<open>submit = true\<close>, when the remote system
  accepts the creation and rejects the submission, the result is the error
  "Failed to create journal entry: ..." carrying the submission failure; the requests
  sent are the creation and the submission and nothing after them, so the created
  entry stays, and the result does not carry the text that reports the creation.
\<close>

theorem failed_submit_hides_creation:
  assumes "flag skip_validation \<or> is_valid (validateJournalEntry fmt je)"
    and "gw w (Post_resource ''Journal Entry'' je) = Inr doc"
    and "gw (w @ [Post_resource ''Journal Entry'' je])
            (Post_method ''frappe.client.submit'' ''Journal Entry'' (name doc)) = Inl e"
  shows "create_journal_entry gw fmt True (Some je) skip_validation (Some True) w =
     (Inr \<lparr>text_content =
             ''Failed to create journal entry: Failed to submit journal entry '' @ name doc @
             '': Failed to call method frappe.client.submit: '' @ error_message e,
           isError = True\<rparr>,
      w @ [Post_resource ''Journal Entry'' je,
           Post_method ''frappe.client.submit'' ''Journal Entry'' (name doc)])"
proof -
  have c: "createJournalEntry gw fmt je (flag skip_validation) w =
             (Inr doc, w @ [Post_resource ''Journal Entry'' je])"
    using assms(1,2) by (rule createJournalEntry_ok)
  have s: "submitJournalEntry gw (name doc) (w @ [Post_resource ''Journal Entry'' je]) =
     (Inl (''Failed to submit journal entry '' @ name doc @
           '': Failed to call method frappe.client.submit: '' @ error_message e),
      (w @ [Post_resource ''Journal Entry'' je]) @
      [Post_method ''frappe.client.submit'' ''Journal Entry'' (name doc)])"
    using assms(3) by (rule submitJournalEntry_failed)
  show ?thesis
    by (simp add: create_journal_entry_def c s flag_Some error_message_Some)
qed

theorem failed_submit_hides_creation_witness:
  "(flag None \<or> is_valid (validateJournalEntry cents_to_string
       (draft ''2025-02-15'' ''Personal'' [line ''5200 - Utilities - Personal'' 250 0, line ''1111 - Checking - Personal'' 0 250]))) \<and>
   submit_rejecting_gateway []
     (Post_resource ''Journal Entry''
       (draft ''2025-02-15'' ''Personal'' [line ''5200 - Utilities - Personal'' 250 0, line ''1111 - Checking - Personal'' 0 250])) =
     Inr \<lparr>name = ''ACC-JV-2025-00001'', json = ''{}''\<rparr> \<and>
   create_journal_entry submit_rejecting_gateway cents_to_string True
       (Some (draft ''2025-02-15'' ''Personal'' [line ''5200 - Utilities - Personal'' 250 0, line ''1111 - Checking - Personal'' 0 250]))
       None (Some True) [] =
     (Inr \<lparr>text_content = ''Failed to create journal entry: Failed to submit journal entry ACC-JV-2025-00001: Failed to call method frappe.client.submit: Request failed with status code 417'',
           isError = True\<rparr>,
      [Post_resource ''Journal Entry''
         (draft ''2025-02-15'' ''Personal'' [line ''5200 - Utilities - Personal'' 250 0, line ''1111 - Checking - Personal'' 0 250]),
       Post_method ''frappe.client.submit'' ''Journal Entry'' ''ACC-JV-2025-00001''])"
proof -
  let ?je = "draft ''2025-02-15'' ''Personal'' [line ''5200 - Utilities - Personal'' 250 0, line ''1111 - Checking - Personal'' 0 250]"
  let ?doc = "\<lparr>name = ''ACC-JV-2025-00001'', json = ''{}''\<rparr>"
  have 1: "flag None \<or> is_valid (validateJournalEntry cents_to_string ?je)" by (simp add: eval_defs)
  have 2: "submit_rejecting_gateway [] (Post_resource ''Journal Entry'' ?je) = Inr ?doc"
    by (simp add: submit_rejecting_gateway_def)
  have 3: "submit_rejecting_gateway ([] @ [Post_resource ''Journal Entry'' ?je])
            (Post_method ''frappe.client.submit'' ''Journal Entry'' (name ?doc)) =
           Inl (Some ''Request failed with status code 417'')"
    by (simp add: submit_rejecting_gateway_def)
  show ?thesis
    using failed_submit_hides_creation [OF 1 2 3, of ] 1 2
    by (simp add: error_message_def falsy_string_def template_string_def)
qed

section \<open>The claim about the batch\<close>

lemma process_entry_validated:
  "validated (snd (process_entry gw fmt autoSubmit entry tr)) = validated tr @ [entry]"
  by (simp add: process_entry_def Let_def split: prod.splits sum.splits)

lemma run_entries_length:
  "length (fst (run_entries gw fmt autoSubmit stopOnError entries tr)) = length entries"
proof (induction entries arbitrary: tr)
  case Nil
  then show ?case by simp
next
  case (Cons e rest)
  obtain out tr1 where p: "process_entry gw fmt autoSubmit e tr = (out, tr1)"
    by (cases "process_entry gw fmt autoSubmit e tr")
  obtain outs tr2 where r: "run_entries gw fmt autoSubmit stopOnError rest tr1 = (outs, tr2)"
    by (cases "run_entries gw fmt autoSubmit stopOnError rest tr1")
  have "length outs = length rest" using Cons.IH [of tr1] by (simp add: r)
  then show ?case by (simp add: p r)
qed

lemma run_entries_nth:
  assumes "i < length entries"
  shows "fst (run_entries gw fmt autoSubmit stopOnError entries tr) ! i =
     (if stopOnError \<and> (\<exists>j<i. is_failure (fst (run_entries gw fmt autoSubmit stopOnError entries tr) ! j))
      then NotAttempted
      else fst (process_entry gw fmt autoSubmit (entries ! i)
             (snd (run_entries gw fmt autoSubmit stopOnError (take i entries) tr))))"
  using assms
proof (induction entries arbitrary: i tr)
  case Nil
  then show ?case by simp
next
  case (Cons e rest)
  obtain out tr1 where p: "process_entry gw fmt autoSubmit e tr = (out, tr1)"
    by (cases "process_entry gw fmt autoSubmit e tr")
  obtain outs tr2 where r: "run_entries gw fmt autoSubmit stopOnError rest tr1 = (outs, tr2)"
    by (cases "run_entries gw fmt autoSubmit stopOnError rest tr1")
  show ?case
  proof (cases i)
    case 0
    then show ?thesis by (simp add: p r)
  next
    case (Suc k)
    then have k: "k < length rest" using Cons.prems by simp
    show ?thesis
    proof (cases "stopOnError \<and> is_failure out")
      case True
      then have "\<exists>j<Suc k. is_failure ((out # replicate (length rest) NotAttempted) ! j)"
        by (intro exI [of _ 0]) simp
      with True show ?thesis using k by (simp add: p Suc)
    next
      case False
      have ex: "(\<exists>j<Suc k. is_failure ((out # outs) ! j)) \<longleftrightarrow> is_failure out \<or> (\<exists>j<k. is_failure (outs ! j))"
        by (auto simp: less_Suc_eq_0_disj)
      have ih: "outs ! k =
         (if stopOnError \<and> (\<exists>j<k. is_failure (outs ! j)) then NotAttempted
          else fst (process_entry gw fmt autoSubmit (rest ! k)
             (snd (run_entries gw fmt autoSubmit stopOnError (take k rest) tr1))))"
        using Cons.IH [OF k, of tr1] by (simp add: r)
      obtain outs' tr3 where r': "run_entries gw fmt autoSubmit stopOnError (take k rest) tr1 = (outs', tr3)"
        by (cases "run_entries gw fmt autoSubmit stopOnError (take k rest) tr1")
      have full: "run_entries gw fmt autoSubmit stopOnError (e # rest) tr = (out # outs, tr2)"
        by (simp add: p r False)
      have pre: "run_entries gw fmt autoSubmit stopOnError (take (Suc k) (e # rest)) tr = (out # outs', tr3)"
        by (simp add: p r' False)
      have cond: "(stopOnError \<and> (\<exists>j<Suc k. is_failure ((out # outs) ! j))) \<longleftrightarrow>
                  (stopOnError \<and> (\<exists>j<k. is_failure (outs ! j)))"
        using False ex by blast
      have "(out # outs) ! Suc k =
         (if stopOnError \<and> (\<exists>j<Suc k. is_failure ((out # outs) ! j)) then NotAttempted
          else fst (process_entry gw fmt autoSubmit ((e # rest) ! Suc k) tr3))"
        unfolding cond nth_Cons_Suc using ih by (simp only: r' snd_conv)
      then show ?thesis
        by (simp only: Suc full pre fst_conv snd_conv)
    qed
  qed
qed

lemma run_entries_stop:
  assumes "stopOnError" and "i < length entries"
    and "is_failure (fst (run_entries gw fmt autoSubmit stopOnError entries tr) ! i)"
  shows "(\<forall>j. i < j \<and> j < length entries \<longrightarrow>
            fst (run_entries gw fmt autoSubmit stopOnError entries tr) ! j = NotAttempted) \<and>
         validated (snd (run_entries gw fmt autoSubmit stopOnError entries tr)) =
           validated tr @ take (Suc i) entries \<and>
         snd (run_entries gw fmt autoSubmit stopOnError entries tr) =
           snd (run_entries gw fmt autoSubmit stopOnError (take (Suc i) entries) tr)"
  using assms(2,3)
proof (induction entries arbitrary: i tr)
  case Nil
  then show ?case by simp
next
  case (Cons e rest)
  obtain out tr1 where p: "process_entry gw fmt autoSubmit e tr = (out, tr1)"
    by (cases "process_entry gw fmt autoSubmit e tr")
  have v1: "validated tr1 = validated tr @ [e]"
    using process_entry_validated [of gw fmt autoSubmit e tr] by (simp add: p)
  obtain outs tr2 where r: "run_entries gw fmt autoSubmit stopOnError rest tr1 = (outs, tr2)"
    by (cases "run_entries gw fmt autoSubmit stopOnError rest tr1")
  show ?case
  proof (cases "is_failure out")
    case True
    have i0: "i = 0"
    proof (rule ccontr)
      assume "i \<noteq> 0"
      then obtain k where "i = Suc k" by (cases i) auto
      with Cons.prems True assms(1) show False by (simp add: p)
    qed
    show ?thesis using True assms(1) by (auto simp add: p i0 v1 nth_Cons split: nat.splits)
  next
    case False
    then obtain k where ik: "i = Suc k" using Cons.prems by (cases i) (auto simp: p r)
    have k: "k < length rest" using Cons.prems ik by simp
    have f: "is_failure (fst (run_entries gw fmt autoSubmit stopOnError rest tr1) ! k)"
      using Cons.prems False by (simp add: p r ik)
    note ih = Cons.IH [OF k f]
    obtain outs' tr3 where r': "run_entries gw fmt autoSubmit stopOnError (take (Suc k) rest) tr1 = (outs', tr3)"
      by (cases "run_entries gw fmt autoSubmit stopOnError (take (Suc k) rest) tr1")
    have a: "\<forall>j. Suc k < j \<and> j < length (e # rest) \<longrightarrow>
            fst (run_entries gw fmt autoSubmit stopOnError (e # rest) tr) ! j = NotAttempted"
    proof (intro allI impI)
      fix j assume j: "Suc k < j \<and> j < length (e # rest)"
      then obtain j' where j': "j = Suc j'" by (cases j) auto
      with j have "k < j' \<and> j' < length rest" by simp
      with ih have "fst (run_entries gw fmt autoSubmit stopOnError rest tr1) ! j' = NotAttempted" by blast
      then show "fst (run_entries gw fmt autoSubmit stopOnError (e # rest) tr) ! j = NotAttempted"
        using False by (simp add: p r j')
    qed
    have b: "validated (snd (run_entries gw fmt autoSubmit stopOnError (e # rest) tr)) =
           validated tr @ take (Suc (Suc k)) (e # rest)"
    proof -
      have "validated tr2 = validated tr1 @ take (Suc k) rest"
        using conjunct1 [OF conjunct2 [OF ih]] by (simp add: r)
      then show ?thesis using False by (simp add: p r v1)
    qed
    have c: "snd (run_entries gw fmt autoSubmit stopOnError (e # rest) tr) =
           snd (run_entries gw fmt autoSubmit stopOnError (take (Suc (Suc k)) (e # rest)) tr)"
    proof -
      have "tr2 = tr3"
        using conjunct2 [OF conjunct2 [OF ih]] by (simp add: r r')
      then show ?thesis using False by (simp add: p r r')
    qed
    show ?thesis using a b c by (simp only: ik) 
  qed
qed

text \<open>
  C3: for every list of drafts and every setting of autoSubmit and stopOnError, the
  batch returns one outcome per entry: the list of outcomes is as long as the input,
  and its i-th element is the outcome of processing the i-th entry in the trace left by
  the entries before it, or NotAttempted when stopOnError is set and an earlier entry
  failed. When stopOnError is set and the outcome of entry i is ValidationFailed or
  GatewayFailed, every later outcome is NotAttempted, the drafts validated are the
  entries up to i and no others, and the whole trace (validations and requests sent) is
  the one left by the entries up to i.
\<close>

theorem batch_outcomes_follow_input:
  assumes "batchCreateJournalEntries gw fmt entries autoSubmit stopOnError tr = (r, tr')"
  shows "length (outcomes r) = length entries \<and>
         (\<forall>i<length entries.
            outcomes r ! i =
              (if stopOnError \<and> (\<exists>j<i. is_failure (outcomes r ! j)) then NotAttempted
               else fst (process_entry gw fmt autoSubmit (entries ! i)
                      (snd (run_entries gw fmt autoSubmit stopOnError (take i entries) tr))))) \<and>
         (\<forall>i<length entries. stopOnError \<and> is_failure (outcomes r ! i) \<longrightarrow>
            (\<forall>j. i < j \<and> j < length entries \<longrightarrow> outcomes r ! j = NotAttempted) \<and>
            validated tr' = validated tr @ take (Suc i) entries \<and>
            tr' = snd (run_entries gw fmt autoSubmit stopOnError (take (Suc i) entries) tr))"
proof -
  have o: "outcomes r = fst (run_entries gw fmt autoSubmit stopOnError entries tr)"
    and t: "tr' = snd (run_entries gw fmt autoSubmit stopOnError entries tr)"
    using assms by (auto simp: batchCreateJournalEntries_def split: prod.splits)
  have 1: "length (outcomes r) = length entries"
    unfolding o by (rule run_entries_length)
  have 2: "outcomes r ! i =
              (if stopOnError \<and> (\<exists>j<i. is_failure (outcomes r ! j)) then NotAttempted
               else fst (process_entry gw fmt autoSubmit (entries ! i)
                      (snd (run_entries gw fmt autoSubmit stopOnError (take i entries) tr))))"
    if "i < length entries" for i
    unfolding o using that by (rule run_entries_nth)
  have 3: "(\<forall>j. i < j \<and> j < length entries \<longrightarrow> outcomes r ! j = NotAttempted) \<and>
            validated tr' = validated tr @ take (Suc i) entries \<and>
            tr' = snd (run_entries gw fmt autoSubmit stopOnError (take (Suc i) entries) tr)"
    if a: "i < length entries" and b: "stopOnError \<and> is_failure (outcomes r ! i)" for i
  proof -
    have s: stopOnError using b by blast
    have f: "is_failure (fst (run_entries gw fmt autoSubmit stopOnError entries tr) ! i)"
      using b unfolding o by blast
    show ?thesis unfolding o t by (rule run_entries_stop [OF s a f])
  qed
  show ?thesis using 1 2 3 by blast
qed

theorem batch_outcomes_follow_input_witness:
  "batchCreateJournalEntries accepting_gateway cents_to_string
     [draft ''2025-02-15'' ''Personal'' [line ''5410 - Groceries - Personal'' 125 0, line ''2112 - American Express - Personal'' 0 125],
      draft ''2025-02-16'' ''Personal'' [line ''5310 - Fuel - Personal'' 45 0, line ''2111 - Chase United - Personal'' 0 40],
      draft ''2025-02-17'' ''Personal'' [line ''5200 - Utilities - Personal'' 250 0, line ''1111 - Checking - Personal'' 0 250]]
     False True \<lparr>validated = [], sent = []\<rparr> =
     (\<lparr>successCount = 1, errorCount = 1,
       outcomes = [Created ''ACC-JV-2025-00001'' False,
                   ValidationFailed [''Debits (45) do not equal credits (40). Difference: 5''],
                   NotAttempted]\<rparr>,
      \<lparr>validated =
         [draft ''2025-02-15'' ''Personal'' [line ''5410 - Groceries - Personal'' 125 0, line ''2112 - American Express - Personal'' 0 125],
          draft ''2025-02-16'' ''Personal'' [line ''5310 - Fuel - Personal'' 45 0, line ''2111 - Chase United - Personal'' 0 40]],
       sent =
         [Post_resource ''Journal Entry''
            (draft ''2025-02-15'' ''Personal'' [line ''5410 - Groceries - Personal'' 125 0, line ''2112 - American Express - Personal'' 0 125])]\<rparr>) \<and>
   (1::nat) < length
     [draft ''2025-02-15'' ''Personal'' [line ''5410 - Groceries - Personal'' 125 0, line ''2112 - American Express - Personal'' 0 125],
      draft ''2025-02-16'' ''Personal'' [line ''5310 - Fuel - Personal'' 45 0, line ''2111 - Chase United - Personal'' 0 40],
      draft ''2025-02-17'' ''Personal'' [line ''5200 - Utilities - Personal'' 250 0, line ''1111 - Checking - Personal'' 0 250]] \<and>
   is_failure ([Created ''ACC-JV-2025-00001'' False,
                ValidationFailed [''Debits (45) do not equal credits (40). Difference: 5''],
                NotAttempted] ! 1) \<and>
   [Created ''ACC-JV-2025-00001'' False,
    ValidationFailed [''Debits (45) do not equal credits (40). Difference: 5''],
    NotAttempted] ! 2 = NotAttempted"
proof -
  let ?e1 = "draft ''2025-02-15'' ''Personal'' [line ''5410 - Groceries - Personal'' 125 0, line ''2112 - American Express - Personal'' 0 125]"
  let ?e2 = "draft ''2025-02-16'' ''Personal'' [line ''5310 - Fuel - Personal'' 45 0, line ''2111 - Chase United - Personal'' 0 40]"
  let ?e3 = "draft ''2025-02-17'' ''Personal'' [line ''5200 - Utilities - Personal'' 250 0, line ''1111 - Checking - Personal'' 0 250]"
  let ?outs = "[Created ''ACC-JV-2025-00001'' False,
                ValidationFailed [''Debits (45) do not equal credits (40). Difference: 5''],
                NotAttempted]"
  have v1: "is_valid (validateJournalEntry cents_to_string ?e1)" by (simp add: eval_defs)
  have v2: "\<not> is_valid (validateJournalEntry cents_to_string ?e2)" by (simp add: eval_defs)
  have e2: "errors (validateJournalEntry cents_to_string ?e2) =
      [''Debits (45) do not equal credits (40). Difference: 5'']" by (simp add: eval_defs)
  have p1: "process_entry accepting_gateway cents_to_string False ?e1 \<lparr>validated = [], sent = []\<rparr> =
      (Created ''ACC-JV-2025-00001'' False, \<lparr>validated = [?e1], sent = [Post_resource ''Journal Entry'' ?e1]\<rparr>)"
    by (simp add: process_entry_def v1 createDocument_def accepting_gateway_def Let_def)
  have p2: "process_entry accepting_gateway cents_to_string False ?e2
        \<lparr>validated = [?e1], sent = [Post_resource ''Journal Entry'' ?e1]\<rparr> =
      (ValidationFailed [''Debits (45) do not equal credits (40). Difference: 5''],
       \<lparr>validated = [?e1, ?e2], sent = [Post_resource ''Journal Entry'' ?e1]\<rparr>)"
    by (simp add: process_entry_def v2 e2 Let_def)
  have b: "batchCreateJournalEntries accepting_gateway cents_to_string [?e1, ?e2, ?e3] False True
        \<lparr>validated = [], sent = []\<rparr> =
     (\<lparr>successCount = 1, errorCount = 1, outcomes = ?outs\<rparr>,
      \<lparr>validated = [?e1, ?e2], sent = [Post_resource ''Journal Entry'' ?e1]\<rparr>)"
    by (simp add: batchCreateJournalEntries_def p1 p2)
  have l: "(1::nat) < length [?e1, ?e2, ?e3]" by simp
  have f: "is_failure (?outs ! 1)" by simp
  have "\<forall>i<length [?e1, ?e2, ?e3]. True \<and> is_failure (?outs ! i) \<longrightarrow>
            (\<forall>j. i < j \<and> j < length [?e1, ?e2, ?e3] \<longrightarrow> ?outs ! j = NotAttempted)"
    using batch_outcomes_follow_input [OF b] by simp
  then have "\<forall>j. 1 < j \<and> j < length [?e1, ?e2, ?e3] \<longrightarrow> ?outs ! j = NotAttempted"
    using l f by blast
  then have "?outs ! 2 = NotAttempted"
    by (elim allE [of _ 2]) simp
  then show ?thesis using b l f by blast
qed

end
